theory Spec2Isabelle
  imports Main "HOL-Library.AList"
begin

section \<open>Service package registration (mediaconvert, sfn)\<close>

text \<open>
  The generated registration modules enumerate the data sources and resources of one API
  family and construct its API client. The attribute names come from the provider's
  \<open>names\<close> package.
\<close>

definition AttrARN :: string where
  "AttrARN = ''arn''"

definition AttrID :: string where
  "AttrID = ''id''"

datatype factory = dataSourceQueue | resourceQueue

record ServicePackageResourceTags =
  IdentifierAttribute :: string

record ServicePackageSDKDataSource =
  ds_Factory :: factory
  ds_TypeName :: string
  ds_Name :: string
  ds_Tags :: "ServicePackageResourceTags option"

record ServicePackageSDKResource =
  r_Factory :: factory
  r_TypeName :: string
  r_Name :: string
  r_Tags :: "ServicePackageResourceTags option"

text \<open>
  The framework registration entries carry a factory only; mediaconvert registers none.
\<close>

datatype ServicePackageFrameworkDataSource = ServicePackageFrameworkDataSource factory

datatype ServicePackageFrameworkResource = ServicePackageFrameworkResource factory

definition FrameworkDataSources :: "ServicePackageFrameworkDataSource list" where
  "FrameworkDataSources = []"

definition FrameworkResources :: "ServicePackageFrameworkResource list" where
  "FrameworkResources = []"

definition SDKDataSources :: "ServicePackageSDKDataSource list" where
  "SDKDataSources =
     [\<lparr>ds_Factory = dataSourceQueue,
       ds_TypeName = ''aws_media_convert_queue'',
       ds_Name = ''Queue'',
       ds_Tags = Some \<lparr>IdentifierAttribute = AttrARN\<rparr>\<rparr>]"

definition SDKResources :: "ServicePackageSDKResource list" where
  "SDKResources =
     [\<lparr>r_Factory = resourceQueue,
       r_TypeName = ''aws_media_convert_queue'',
       r_Name = ''Queue'',
       r_Tags = Some \<lparr>IdentifierAttribute = AttrARN\<rparr>\<rparr>]"

subsection \<open>Client construction\<close>

datatype FIPSEndpointState = FIPSEndpointStateUnset | FIPSEndpointStateEnabled | FIPSEndpointStateDisabled

text \<open>
  SDK v2 (mediaconvert): \<open>NewFromConfig\<close> derives the client options from the shared
  configuration and then runs the option functions on them. Of the options, the callback in
  \<open>NewClient\<close> touches \<open>BaseEndpoint\<close> and \<open>EndpointOptions.UseFIPSEndpoint\<close>.
\<close>

record Options =
  BaseEndpoint :: "string option"
  UseFIPSEndpoint :: FIPSEndpointState

text \<open>The \<open>config\<close> map of \<open>NewClient\<close>, with its two entries as typed fields.\<close>

record client_config =
  aws_sdkv2_config :: Options
  endpoint :: string

text \<open>The option function passed to \<open>NewFromConfig\<close>.\<close>

definition NewClient_options :: "string \<Rightarrow> Options \<Rightarrow> Options" where
  "NewClient_options ep o_in =
     (if ep \<noteq> ''''
      then (let o1 = o_in\<lparr>BaseEndpoint := Some ep\<rparr>
            in if UseFIPSEndpoint o1 = FIPSEndpointStateEnabled
               then o1\<lparr>UseFIPSEndpoint := FIPSEndpointStateDisabled\<rparr>
               else o1)
      else o_in)"

text \<open>
  \<open>NewFromConfig cfg fn\<close>: the client is represented by the options it was built with.
\<close>

definition NewFromConfig :: "Options \<Rightarrow> (Options \<Rightarrow> Options) \<Rightarrow> Options" where
  "NewFromConfig cfg fn = fn cfg"

definition NewClient :: "client_config \<Rightarrow> Options" where
  "NewClient config = NewFromConfig (aws_sdkv2_config config) (NewClient_options (endpoint config))"

text \<open>
  SDK v1 (sfn): \<open>NewConn\<close> starts from an empty \<open>aws.Config\<close>, sets \<open>Endpoint\<close> and
  \<open>UseFIPSEndpoint\<close> in it, and builds the client from \<open>sess.Copy(&cfg)\<close>. The copy merges
  the fields that are set in \<open>cfg\<close> (a non-nil endpoint, a FIPS state other than unset) over
  the session's configuration.
\<close>

record Config =
  Endpoint :: "string option"
  cfg_UseFIPSEndpoint :: FIPSEndpointState

record conn_config =
  session :: Config
  conn_endpoint :: string

definition empty_Config :: Config where
  "empty_Config = \<lparr>Endpoint = None, cfg_UseFIPSEndpoint = FIPSEndpointStateUnset\<rparr>"

definition session_Copy :: "Config \<Rightarrow> Config \<Rightarrow> Config" where
  "session_Copy sess cfg =
     \<lparr>Endpoint = (case Endpoint cfg of None \<Rightarrow> Endpoint sess | Some e \<Rightarrow> Some e),
      cfg_UseFIPSEndpoint =
        (if cfg_UseFIPSEndpoint cfg \<noteq> FIPSEndpointStateUnset
         then cfg_UseFIPSEndpoint cfg else cfg_UseFIPSEndpoint sess)\<rparr>"

definition NewConn_cfg :: "conn_config \<Rightarrow> Config" where
  "NewConn_cfg config =
     (let sess = session config; cfg = empty_Config; ep = conn_endpoint config
      in if ep \<noteq> ''''
         then (let cfg1 = cfg\<lparr>Endpoint := Some ep\<rparr>
               in if cfg_UseFIPSEndpoint sess = FIPSEndpointStateEnabled
                  then cfg1\<lparr>cfg_UseFIPSEndpoint := FIPSEndpointStateDisabled\<rparr>
                  else cfg1)
         else cfg)"

definition NewConn :: "conn_config \<Rightarrow> Config" where
  "NewConn config = session_Copy (session config) (NewConn_cfg config)"

section \<open>EFS replication configuration\<close>

subsection \<open>API types and constants\<close>

definition AttrFileSystemID :: string where
  "AttrFileSystemID = ''file_system_id''"

definition AttrKMSKeyID :: string where
  "AttrKMSKeyID = ''kms_key_id''"

definition AttrRegion :: string where
  "AttrRegion = ''region''"

definition AttrStatus :: string where
  "AttrStatus = ''status''"

definition ErrCodeFileSystemNotFound :: string where
  "ErrCodeFileSystemNotFound = ''FileSystemNotFound''"

definition ErrCodeReplicationNotFound :: string where
  "ErrCodeReplicationNotFound = ''ReplicationNotFound''"

definition ReplicationStatusEnabled :: string where
  "ReplicationStatusEnabled = ''ENABLED''"

definition ReplicationStatusEnabling :: string where
  "ReplicationStatusEnabling = ''ENABLING''"

definition ReplicationStatusDeleting :: string where
  "ReplicationStatusDeleting = ''DELETING''"

text \<open>An instant; \<open>TimeValue\<close> of a nil pointer is the zero time.\<close>

type_synonym time = int

text \<open>A \<open>time.Duration\<close>, in nanoseconds.\<close>

type_synonym Duration = int

record Destination =
  FileSystemId :: "string option"
  Region :: "string option"
  Status :: "string option"

record ReplicationConfigurationDescription =
  CreationTime :: "time option"
  Destinations :: "Destination option list"
  OriginalSourceFileSystemArn :: "string option"
  SourceFileSystemArn :: "string option"
  SourceFileSystemId :: "string option"
  SourceFileSystemRegion :: "string option"

record DestinationToCreate =
  to_AvailabilityZoneName :: "string option"
  to_KmsKeyId :: "string option"
  to_Region :: "string option"
  to_FileSystemId :: "string option"

record CreateReplicationConfigurationInput =
  create_SourceFileSystemId :: "string option"
  create_Destinations :: "DestinationToCreate list"

record DeleteReplicationConfigurationInput =
  delete_SourceFileSystemId :: "string option"

record DescribeReplicationConfigurationsInput =
  describe_FileSystemId :: "string option"

record DescribeReplicationConfigurationsOutput =
  Replications :: "ReplicationConfigurationDescription option list"

definition ToString :: "string option \<Rightarrow> string" where
  "ToString p = (case p of None \<Rightarrow> '''' | Some s \<Rightarrow> s)"

definition TimeValue :: "time option \<Rightarrow> time" where
  "TimeValue p = (case p of None \<Rightarrow> 0 | Some t \<Rightarrow> t)"

subsection \<open>Errors, panics and diagnostics\<close>

text \<open>
  The Go \<open>error\<close> values that the resource constructs or tells apart: a service error with
  its error code, the retry package's not-found, unexpected-state and timeout errors, the
  provider's empty-result and too-many-results errors, an error wrapped by \<open>fmt.Errorf\<close>
  with \<open>%w\<close> (format, string arguments, wrapped error), and any other error.
\<close>

datatype error =
    APIError string
  | NotFoundError "error option" "DescribeReplicationConfigurationsInput option" nat
  | EmptyResultError "DescribeReplicationConfigurationsInput option"
  | TooManyResultsError nat
  | UnexpectedStateError "error option" string "string list"
  | TimeoutError "error option" string "string list"
  | Errorf string "string list" error
  | OtherError string

datatype panic = IndexOutOfRange | NilPointerDereference | TypeAssertion | NilMapAssignment

text \<open>
  Modelled from the spec: \<open>tfawserr.ErrCodeEquals\<close> is library code outside the sources. It
  looks for a service error along the chain of wrapped errors and compares its code with
  the given codes.
\<close>

fun ErrorCode :: "error \<Rightarrow> string option" where
  "ErrorCode (APIError c) = Some c"
| "ErrorCode (Errorf f args e) = ErrorCode e"
| "ErrorCode (NotFoundError (Some e) r n) = ErrorCode e"
| "ErrorCode (UnexpectedStateError (Some e) s t) = ErrorCode e"
| "ErrorCode (TimeoutError (Some e) s t) = ErrorCode e"
| "ErrorCode _ = None"

definition ErrCodeEquals :: "error option \<Rightarrow> string list \<Rightarrow> bool" where
  "ErrCodeEquals err codes =
     (case err of None \<Rightarrow> False
      | Some e \<Rightarrow> (case ErrorCode e of None \<Rightarrow> False | Some c \<Rightarrow> c \<in> set codes))"

text \<open>
  Modelled from the spec: \<open>tfresource.NotFound\<close>, \<open>tfresource.NewEmptyResultError\<close> and
  \<open>tfresource.AssertSinglePtrResult\<close> are provider code outside the sources. \<open>NotFound\<close> holds
  of an error whose chain contains a \<open>retry.NotFoundError\<close>; the empty-result and
  too-many-results errors present themselves as one.
\<close>

fun is_NotFound :: "error \<Rightarrow> bool" where
  "is_NotFound (NotFoundError le r n) = True"
| "is_NotFound (EmptyResultError r) = True"
| "is_NotFound (TooManyResultsError n) = True"
| "is_NotFound (Errorf f args e) = is_NotFound e"
| "is_NotFound (UnexpectedStateError (Some e) s t) = is_NotFound e"
| "is_NotFound (TimeoutError (Some e) s t) = is_NotFound e"
| "is_NotFound _ = False"

definition NotFound :: "error option \<Rightarrow> bool" where
  "NotFound err = (case err of None \<Rightarrow> False | Some e \<Rightarrow> is_NotFound e)"

definition NewEmptyResultError :: "DescribeReplicationConfigurationsInput option \<Rightarrow> error" where
  "NewEmptyResultError lastRequest = EmptyResultError lastRequest"

definition AssertSinglePtrResult :: "'a option list \<Rightarrow> 'a option \<times> error option" where
  "AssertSinglePtrResult a =
     (case a of
        [] \<Rightarrow> (None, Some (NewEmptyResultError None))
      | [x] \<Rightarrow> (case x of None \<Rightarrow> (None, Some (NewEmptyResultError None))
                | Some v \<Rightarrow> (Some v, None))
      | _ \<Rightarrow> (None, Some (TooManyResultsError (length a))))"

text \<open>
  Diagnostics, all of error severity: \<open>sdkdiag.AppendErrorf\<close> appends one built from a
  format and its arguments, \<open>sdkdiag.AppendFromErr\<close> one built from an error, and nothing
  for a nil error.
\<close>

datatype diag_arg = StringArg string | ErrorArg error

datatype Diagnostic = ErrorDiagnostic string "diag_arg list"

definition AppendErrorf :: "Diagnostic list \<Rightarrow> string \<Rightarrow> diag_arg list \<Rightarrow> Diagnostic list" where
  "AppendErrorf diags format args = diags @ [ErrorDiagnostic format args]"

definition AppendFromErr :: "Diagnostic list \<Rightarrow> error option \<Rightarrow> Diagnostic list" where
  "AppendFromErr diags err =
     (case err of None \<Rightarrow> diags | Some e \<Rightarrow> diags @ [ErrorDiagnostic ''%s'' [ErrorArg e]])"

definition HasError :: "Diagnostic list \<Rightarrow> bool" where
  "HasError diags = (diags \<noteq> [])"

subsection \<open>The remote service\<close>

text \<open>
  A client is named by the way the provider hands it out: \<open>EFSClient\<close> is the client of the
  provider's own (source) Region, \<open>EFSConnForRegion r\<close> the client for Region \<open>r\<close>.
\<close>

datatype conn = EFSClient | EFSConnForRegion string

text \<open>Every request sent to the service is recorded, oldest first.\<close>

datatype call =
    CreateReplicationConfigurationCall conn CreateReplicationConfigurationInput
  | DeleteReplicationConfigurationCall conn DeleteReplicationConfigurationInput
  | DescribeReplicationConfigurationsCall conn DescribeReplicationConfigurationsInput

type_synonym trace = "call list"

text \<open>
  The environment of the resource. The service answers a request as a function of the
  requests made before it, which covers every deterministic service and, by quantifying
  over the record, every behaviour of a remote one. A paginated answer is the list of pages
  fetched and the error that ended the pagination, if any. \<open>refreshes_before_timeout\<close> is
  the number of status refreshes that a wait started after the given requests completes
  before its timeout expires (the clock itself is outside the model).
\<close>

record service =
  CreateReplicationConfiguration ::
    "trace \<Rightarrow> conn \<Rightarrow> CreateReplicationConfigurationInput \<Rightarrow> error option"
  DeleteReplicationConfiguration ::
    "trace \<Rightarrow> conn \<Rightarrow> DeleteReplicationConfigurationInput \<Rightarrow> error option"
  DescribeReplicationConfigurations ::
    "trace \<Rightarrow> conn \<Rightarrow> DescribeReplicationConfigurationsInput
       \<Rightarrow> DescribeReplicationConfigurationsOutput option list \<times> error option"
  refreshes_before_timeout :: "trace \<Rightarrow> Duration \<Rightarrow> nat"

subsection \<open>Finders\<close>

text \<open>
  The SDK's paginator hands each page to the callback together with \<open>lastPage\<close>, which is
  true of the final page of a pagination that was not cut short by an error, and stops
  when the callback returns false.
\<close>

fun PagesWithContext ::
  "'p list \<Rightarrow> bool \<Rightarrow> ('p \<Rightarrow> bool \<Rightarrow> 'a \<Rightarrow> bool \<times> 'a) \<Rightarrow> 'a \<Rightarrow> 'a" where
  "PagesWithContext [] failed fn acc = acc"
| "PagesWithContext (page # pages) failed fn acc =
     (case fn page (pages = [] \<and> \<not> failed) acc of
        (continue, acc') \<Rightarrow> if continue then PagesWithContext pages failed fn acc' else acc')"

text \<open>The callback of \<open>findReplicationConfigurations\<close>, with \<open>output\<close> passed through.\<close>

definition collect_page ::
  "DescribeReplicationConfigurationsOutput option \<Rightarrow> bool
     \<Rightarrow> ReplicationConfigurationDescription option list
     \<Rightarrow> bool \<times> ReplicationConfigurationDescription option list" where
  "collect_page page lastPage output =
     (case page of
        None \<Rightarrow> (\<not> lastPage, output)
      | Some pg \<Rightarrow>
          (\<not> lastPage,
           foldl (\<lambda>out v. if v \<noteq> None then out @ [v] else out) output (Replications pg)))"

definition findReplicationConfigurations ::
  "service \<Rightarrow> conn \<Rightarrow> DescribeReplicationConfigurationsInput \<Rightarrow> trace
     \<Rightarrow> (ReplicationConfigurationDescription option list \<times> error option) \<times> trace" where
  "findReplicationConfigurations env cn input tr =
     (case DescribeReplicationConfigurations env tr cn input of
        (pages, err) \<Rightarrow>
          (let tr' = tr @ [DescribeReplicationConfigurationsCall cn input];
               output = PagesWithContext pages (err \<noteq> None) collect_page []
           in if ErrCodeEquals err [ErrCodeFileSystemNotFound, ErrCodeReplicationNotFound]
              then (([], Some (NotFoundError err (Some input) 0)), tr')
              else if err \<noteq> None then (([], err), tr')
              else ((output, None), tr')))"

definition findReplicationConfiguration ::
  "service \<Rightarrow> conn \<Rightarrow> DescribeReplicationConfigurationsInput \<Rightarrow> trace
     \<Rightarrow> (ReplicationConfigurationDescription option \<times> error option) \<times> trace" where
  "findReplicationConfiguration env cn input tr =
     (case findReplicationConfigurations env cn input tr of
        ((output, err), tr') \<Rightarrow>
          if err \<noteq> None then ((None, err), tr')
          else (AssertSinglePtrResult output, tr'))"

text \<open>
  Dereferencing a nil \<open>output\<close> would panic. The index \<open>Destinations[0]\<close> is guarded by the
  length test, as the source's short-circuit disjunction has it.
\<close>

definition FindReplicationConfigurationByID ::
  "service \<Rightarrow> conn \<Rightarrow> string \<Rightarrow> trace
     \<Rightarrow> panic + ((ReplicationConfigurationDescription option \<times> error option) \<times> trace)" where
  "FindReplicationConfigurationByID env cn id' tr =
     (let input = \<lparr>describe_FileSystemId = Some id'\<rparr>
      in case findReplicationConfiguration env cn input tr of
           ((output, err), tr') \<Rightarrow>
             if err \<noteq> None then Inr ((None, err), tr')
             else (case output of
                     None \<Rightarrow> Inl NilPointerDereference
                   | Some out \<Rightarrow>
                       (case Destinations out of
                          [] \<Rightarrow> Inr ((None, Some (NewEmptyResultError (Some input))), tr')
                        | d0 # ds \<Rightarrow>
                            if d0 = None
                            then Inr ((None, Some (NewEmptyResultError (Some input))), tr')
                            else Inr ((Some out, None), tr'))))"

text \<open>
  The refresh function. Its index \<open>output.Destinations[0]\<close> is not guarded: on an empty
  list it panics, and so does the dereference of a nil first element.
\<close>

definition statusReplicationConfiguration ::
  "service \<Rightarrow> conn \<Rightarrow> string \<Rightarrow> trace
     \<Rightarrow> panic + ((ReplicationConfigurationDescription option \<times> string \<times> error option) \<times> trace)" where
  "statusReplicationConfiguration env cn id' tr =
     (case FindReplicationConfigurationByID env cn id' tr of
        Inl p \<Rightarrow> Inl p
      | Inr ((output, err), tr') \<Rightarrow>
          if NotFound err then Inr ((None, '''', None), tr')
          else if err \<noteq> None then Inr ((None, '''', err), tr')
          else (case output of
                  None \<Rightarrow> Inl NilPointerDereference
                | Some out \<Rightarrow>
                    (case Destinations out of
                       [] \<Rightarrow> Inl IndexOutOfRange
                     | d0 # ds \<Rightarrow>
                         (case d0 of
                            None \<Rightarrow> Inl NilPointerDereference
                          | Some dst \<Rightarrow> Inr ((Some out, ToString (Status dst), None), tr')))))"

subsection \<open>Waiting for a state\<close>

text \<open>
  The configuration of a wait, with the fields that the resource sets. A
  \<open>ContinuousTargetOccurence\<close> left at zero counts as one.
\<close>

record 'r StateChangeConf =
  Pending :: "string list"
  Target :: "string list"
  Refresh :: "trace \<Rightarrow> panic + (('r option \<times> string \<times> error option) \<times> trace)"
  Timeout :: Duration
  ContinuousTargetOccurence :: nat

text \<open>
  Modelled from the spec: \<open>retry.StateChangeConf.WaitForStateContext\<close> is plugin SDK code
  outside the sources. The model is its poll loop, run sequentially: every round refreshes
  the state once; an error of the refresh ends the wait with that error; a nil result with
  an empty target list counts one occurrence of the target; a nil result with targets
  counts one not-found round, of which more than \<open>NotFoundChecks\<close> (20 when unset) in a row
  end the wait with a not-found error; a state among the targets counts one occurrence; a
  pending state resets the occurrences; any other state, when pending states are given,
  ends the wait with an unexpected-state error. The wait succeeds with the last result
  once the occurrences reach \<open>ContinuousTargetOccurence\<close>. The timeout is the number of
  rounds that fit into it: when they are used up the wait ends with a timeout error and a
  nil result. Delays between rounds and cancellation of the context are left out.
\<close>

definition NotFoundChecks :: nat where
  "NotFoundChecks = 20"

definition continuous_target :: "'r StateChangeConf \<Rightarrow> nat" where
  "continuous_target conf =
     (if ContinuousTargetOccurence conf = 0 then 1 else ContinuousTargetOccurence conf)"

text \<open>
  The scan of the target list: \<open>(found, targetOccurence, done)\<close> after comparing the
  current state with each target in turn.
\<close>

fun scan_target :: "string list \<Rightarrow> string \<Rightarrow> nat \<Rightarrow> bool \<Rightarrow> nat \<Rightarrow> bool \<times> nat \<times> bool" where
  "scan_target [] currentState wanted found targetOccurence = (found, targetOccurence, False)"
| "scan_target (allowed # rest) currentState wanted found targetOccurence =
     (if currentState = allowed
      then (if wanted = targetOccurence + 1 then (True, targetOccurence + 1, True)
            else scan_target rest currentState wanted True (targetOccurence + 1))
      else scan_target rest currentState wanted found targetOccurence)"

fun refresh_loop ::
  "nat \<Rightarrow> 'r StateChangeConf \<Rightarrow> nat \<Rightarrow> nat \<Rightarrow> string \<Rightarrow> trace
     \<Rightarrow> panic + (('r option \<times> error option) \<times> trace)" where
  "refresh_loop 0 conf notfoundTick targetOccurence lastState tr =
     Inr ((None, Some (TimeoutError None lastState (Target conf))), tr)"
| "refresh_loop (Suc rounds) conf notfoundTick targetOccurence lastState tr =
     (case Refresh conf tr of
        Inl p \<Rightarrow> Inl p
      | Inr ((res, currentState, err), tr') \<Rightarrow>
          if err \<noteq> None then Inr ((res, err), tr')
          else if res = None \<and> length (Target conf) = 0 then
            (if continuous_target conf = targetOccurence + 1 then Inr ((res, None), tr')
             else refresh_loop rounds conf notfoundTick (targetOccurence + 1) currentState tr')
          else if res = None then
            (if notfoundTick + 1 > NotFoundChecks
             then Inr ((None, Some (NotFoundError err None (notfoundTick + 1))), tr')
             else refresh_loop rounds conf (notfoundTick + 1) targetOccurence currentState tr')
          else
            (case scan_target (Target conf) currentState (continuous_target conf) False
                    targetOccurence of
               (found, occ, done) \<Rightarrow>
                 if done then Inr ((res, None), tr')
                 else (let pending = (currentState \<in> set (Pending conf));
                           found' = (found \<or> pending);
                           occ' = (if pending then 0 else occ)
                       in if \<not> found' \<and> length (Pending conf) > 0
                          then Inr ((res,
                                 Some (UnexpectedStateError err currentState (Target conf))), tr')
                          else refresh_loop rounds conf 0 occ' currentState tr')))"

definition WaitForStateContext ::
  "service \<Rightarrow> 'r StateChangeConf \<Rightarrow> trace \<Rightarrow> panic + (('r option \<times> error option) \<times> trace)" where
  "WaitForStateContext env conf tr =
     refresh_loop (refreshes_before_timeout env tr (Timeout conf)) conf 0 0 '''' tr"

definition waitReplicationConfigurationCreated ::
  "service \<Rightarrow> conn \<Rightarrow> string \<Rightarrow> Duration \<Rightarrow> trace
     \<Rightarrow> panic + ((ReplicationConfigurationDescription option \<times> error option) \<times> trace)" where
  "waitReplicationConfigurationCreated env cn id' timeout tr =
     (let stateConf =
            \<lparr>Pending = [ReplicationStatusEnabling],
             Target = [ReplicationStatusEnabled],
             Refresh = statusReplicationConfiguration env cn id',
             Timeout = timeout,
             ContinuousTargetOccurence = 0\<rparr>
      in case WaitForStateContext env stateConf tr of
           Inl p \<Rightarrow> Inl p
         | Inr ((outputRaw, err), tr') \<Rightarrow>
             (case outputRaw of
                Some output \<Rightarrow> Inr ((Some output, err), tr')
              | None \<Rightarrow> Inr ((None, err), tr')))"

definition waitReplicationConfigurationDeleted ::
  "service \<Rightarrow> conn \<Rightarrow> string \<Rightarrow> Duration \<Rightarrow> trace
     \<Rightarrow> panic + ((ReplicationConfigurationDescription option \<times> error option) \<times> trace)" where
  "waitReplicationConfigurationDeleted env cn id' timeout tr =
     (let stateConf =
            \<lparr>Pending = [ReplicationStatusDeleting],
             Target = [],
             Refresh = statusReplicationConfiguration env cn id',
             Timeout = timeout,
             ContinuousTargetOccurence = 2\<rparr>
      in case WaitForStateContext env stateConf tr of
           Inl p \<Rightarrow> Inl p
         | Inr ((outputRaw, err), tr') \<Rightarrow>
             (case outputRaw of
                Some output \<Rightarrow> Inr ((Some output, err), tr')
              | None \<Rightarrow> Inr ((None, err), tr')))"

definition deleteReplicationConfiguration ::
  "service \<Rightarrow> conn \<Rightarrow> string \<Rightarrow> Duration \<Rightarrow> trace \<Rightarrow> panic + (error option \<times> trace)" where
  "deleteReplicationConfiguration env cn fsID timeout tr =
     (let input = \<lparr>delete_SourceFileSystemId = Some fsID\<rparr>;
          err = DeleteReplicationConfiguration env tr cn input;
          tr1 = tr @ [DeleteReplicationConfigurationCall cn input]
      in if ErrCodeEquals err [ErrCodeFileSystemNotFound, ErrCodeReplicationNotFound]
         then Inr (None, tr1)
         else (case err of
                 Some e \<Rightarrow>
                   Inr (Some (Errorf ''deleting EFS Replication Configuration (%s): %w'' [fsID] e),
                        tr1)
               | None \<Rightarrow>
                   (case waitReplicationConfigurationDeleted env cn fsID timeout tr1 of
                      Inl p \<Rightarrow> Inl p
                    | Inr ((output, werr), tr2) \<Rightarrow>
                        (case werr of
                           Some e \<Rightarrow>
                             Inr (Some (Errorf
                                    ''waiting for EFS Replication Configuration (%s) delete: %w''
                                    [fsID] e), tr2)
                         | None \<Rightarrow> Inr (None, tr2)))))"

subsection \<open>Resource data, expanders and flatteners\<close>

text \<open>
  A value stored in a schema map, and an element of a schema list: a
  \<open>map[string]interface{}\<close> (possibly the nil map) or a value of another dynamic type.
\<close>

datatype tfvalue = StringValue string | NilValue | OtherValue

type_synonym tfmap = "(string \<times> tfvalue) list"

datatype iface = MapValue "tfmap option" | NonMapValue

text \<open>
  The resource data \<open>d\<close>: the ID, the new-resource mark, the attributes of the schema and
  the two timeouts. \<open>Set_destination\<close> is the verdict of the schema writer on a value for
  \<open>destination\<close>.
\<close>

record ResourceData =
  d_Id :: string
  d_IsNewResource :: bool
  d_creation_time :: time
  d_destination :: "iface list"
  d_original_source_file_system_arn :: string
  d_source_file_system_arn :: string
  d_source_file_system_id :: string
  d_source_file_system_region :: string
  d_TimeoutCreate :: Duration
  d_TimeoutDelete :: Duration
  Set_destination :: "iface list \<Rightarrow> error option"

definition SetId :: "ResourceData \<Rightarrow> string \<Rightarrow> ResourceData" where
  "SetId d v = d\<lparr>d_Id := v\<rparr>"

text \<open>\<open>d.GetOk\<close> on the list attribute: the value, and whether it is not the zero value.\<close>

definition GetOk_destination :: "ResourceData \<Rightarrow> iface list \<times> bool" where
  "GetOk_destination d = (d_destination d, d_destination d \<noteq> [])"

text \<open>\<open>tfMap[k].(string)\<close> with \<open>ok\<close> and the test for the empty string.\<close>

definition string_attr :: "tfmap \<Rightarrow> string \<Rightarrow> string option" where
  "string_attr tfMap k =
     (case map_of tfMap k of
        Some (StringValue v) \<Rightarrow> if v \<noteq> '''' then Some v else None
      | _ \<Rightarrow> None)"

definition expandDestinationToCreate :: "tfmap option \<Rightarrow> DestinationToCreate option" where
  "expandDestinationToCreate tfMap =
     (case tfMap of
        None \<Rightarrow> None
      | Some m \<Rightarrow>
          Some \<lparr>to_AvailabilityZoneName = string_attr m ''availability_zone_name'',
                to_KmsKeyId = string_attr m AttrKMSKeyID,
                to_Region = string_attr m AttrRegion,
                to_FileSystemId = string_attr m AttrFileSystemID\<rparr>)"

fun expandDestinationsToCreate :: "iface list \<Rightarrow> DestinationToCreate list" where
  "expandDestinationsToCreate [] = []"
| "expandDestinationsToCreate (tfMapRaw # tfList) =
     (case tfMapRaw of
        NonMapValue \<Rightarrow> expandDestinationsToCreate tfList
      | MapValue tfMap \<Rightarrow>
          (case expandDestinationToCreate tfMap of
             None \<Rightarrow> expandDestinationsToCreate tfList
           | Some apiObject \<Rightarrow> apiObject # expandDestinationsToCreate tfList))"

definition flattenDestination :: "Destination option \<Rightarrow> tfmap option" where
  "flattenDestination apiObject =
     (case apiObject of
        None \<Rightarrow> None
      | Some obj \<Rightarrow>
          (let tfMap = [];
               tfMap = (case FileSystemId obj of None \<Rightarrow> tfMap
                        | Some v \<Rightarrow> AList.update AttrFileSystemID (StringValue v) tfMap);
               tfMap = (case Region obj of None \<Rightarrow> tfMap
                        | Some v \<Rightarrow> AList.update AttrRegion (StringValue v) tfMap);
               tfMap = (case Status obj of None \<Rightarrow> tfMap
                        | Some v \<Rightarrow> AList.update AttrStatus (StringValue v) tfMap)
           in Some tfMap))"

fun flattenDestinations :: "Destination option list \<Rightarrow> iface list" where
  "flattenDestinations [] = []"
| "flattenDestinations (apiObject # apiObjects) =
     (if apiObject = None then flattenDestinations apiObjects
      else MapValue (flattenDestination apiObject) # flattenDestinations apiObjects)"

text \<open>
  The closure \<open>copy\<close> of the read function:
  \<open>destinations[i].(map[string]interface{})[k] = v[i].(map[string]interface{})[k]\<close>, with
  the panics of its two indexings, its two type assertions and of a store into a nil map.
  Reading a key that a map lacks gives nil.
\<close>

definition map_index :: "tfmap option \<Rightarrow> string \<Rightarrow> tfvalue" where
  "map_index m k =
     (case m of None \<Rightarrow> NilValue
      | Some kvs \<Rightarrow> (case map_of kvs k of None \<Rightarrow> NilValue | Some x \<Rightarrow> x))"

definition copy_key :: "iface list \<Rightarrow> iface list \<Rightarrow> nat \<Rightarrow> string \<Rightarrow> panic + iface list" where
  "copy_key destinations v i k =
     (if i \<ge> length destinations then Inl IndexOutOfRange
      else (case destinations ! i of
              NonMapValue \<Rightarrow> Inl TypeAssertion
            | MapValue target \<Rightarrow>
                if i \<ge> length v then Inl IndexOutOfRange
                else (case v ! i of
                        NonMapValue \<Rightarrow> Inl TypeAssertion
                      | MapValue source \<Rightarrow>
                          (case target of
                             None \<Rightarrow> Inl NilMapAssignment
                           | Some kvs \<Rightarrow>
                               Inr (destinations
                                      [i := MapValue (Some (AList.update k (map_index source k) kvs))])))))"

subsection \<open>Create, read and delete\<close>

text \<open>
  The read function in three parts: the copy of the two attributes that the service does
  not return (with \<open>Assume 1 destination\<close>, index 0), the writes into the resource data,
  and the lookup with its two error branches.
\<close>

definition read_copy :: "ResourceData \<Rightarrow> iface list \<Rightarrow> panic + iface list" where
  "read_copy d destinations =
     (case GetOk_destination d of
        (v, ok) \<Rightarrow>
          if ok \<and> length v > 0
          then (case copy_key destinations v 0 ''availability_zone_name'' of
                  Inl p \<Rightarrow> Inl p
                | Inr ds \<Rightarrow> copy_key ds v 0 AttrKMSKeyID)
          else Inr destinations)"

definition read_set ::
  "Diagnostic list \<Rightarrow> ResourceData \<Rightarrow> ReplicationConfigurationDescription \<Rightarrow> iface list
     \<Rightarrow> Diagnostic list \<times> ResourceData" where
  "read_set diags d repl destinations =
     (let d1 = d\<lparr>d_creation_time := TimeValue (CreationTime repl)\<rparr>
      in case Set_destination d1 destinations of
           Some e \<Rightarrow> (AppendErrorf diags ''setting destination: %s'' [ErrorArg e], d1)
         | None \<Rightarrow>
             (diags,
              d1\<lparr>d_destination := destinations,
                 d_original_source_file_system_arn := ToString (OriginalSourceFileSystemArn repl),
                 d_source_file_system_arn := ToString (SourceFileSystemArn repl),
                 d_source_file_system_id := ToString (SourceFileSystemId repl),
                 d_source_file_system_region := ToString (SourceFileSystemRegion repl)\<rparr>))"

definition resourceReplicationConfigurationRead ::
  "service \<Rightarrow> ResourceData \<Rightarrow> trace \<Rightarrow> panic + (Diagnostic list \<times> ResourceData \<times> trace)" where
  "resourceReplicationConfigurationRead env d tr =
     (let diags = []; cn = EFSClient
      in case FindReplicationConfigurationByID env cn (d_Id d) tr of
           Inl p \<Rightarrow> Inl p
         | Inr ((replication, err), tr') \<Rightarrow>
             if \<not> d_IsNewResource d \<and> NotFound err then Inr (diags, SetId d '''', tr')
             else (case err of
                     Some e \<Rightarrow>
                       Inr (AppendErrorf diags ''reading EFS Replication Configuration (%s): %s''
                              [StringArg (d_Id d), ErrorArg e], d, tr')
                   | None \<Rightarrow>
                       (case replication of
                          None \<Rightarrow> Inl NilPointerDereference
                        | Some repl \<Rightarrow>
                            (case read_copy d (flattenDestinations (Destinations repl)) of
                               Inl p \<Rightarrow> Inl p
                             | Inr destinations \<Rightarrow>
                                 (case read_set diags d repl destinations of
                                    (diags', d') \<Rightarrow> Inr (diags', d', tr'))))))"

definition resourceReplicationConfigurationCreate ::
  "service \<Rightarrow> ResourceData \<Rightarrow> trace \<Rightarrow> panic + (Diagnostic list \<times> ResourceData \<times> trace)" where
  "resourceReplicationConfigurationCreate env d tr =
     (let diags = []; cn = EFSClient;
          fsID = d_source_file_system_id d;
          input = \<lparr>create_SourceFileSystemId = Some fsID, create_Destinations = []\<rparr>;
          input = (case GetOk_destination d of
                     (v, ok) \<Rightarrow>
                       if ok \<and> length v > 0
                       then input\<lparr>create_Destinations := expandDestinationsToCreate v\<rparr>
                       else input);
          err = CreateReplicationConfiguration env tr cn input;
          tr1 = tr @ [CreateReplicationConfigurationCall cn input]
      in case err of
           Some e \<Rightarrow>
             Inr (AppendErrorf diags ''creating EFS Replication Configuration (%s): %s''
                    [StringArg fsID, ErrorArg e], d, tr1)
         | None \<Rightarrow>
             (let d1 = SetId d fsID
              in case waitReplicationConfigurationCreated env cn (d_Id d1) (d_TimeoutCreate d1) tr1 of
                   Inl p \<Rightarrow> Inl p
                 | Inr ((output, werr), tr2) \<Rightarrow>
                     (case werr of
                        Some e \<Rightarrow>
                          Inr (AppendErrorf diags
                                 ''waiting for EFS Replication Configuration (%s) create: %s''
                                 [StringArg (d_Id d1), ErrorArg e], d1, tr2)
                      | None \<Rightarrow>
                          (case resourceReplicationConfigurationRead env d1 tr2 of
                             Inl p \<Rightarrow> Inl p
                           | Inr (rdiags, d2, tr3) \<Rightarrow> Inr (diags @ rdiags, d2, tr3)))))"

text \<open>
  The delete function indexes the expanded destination list at 0 without a guard: on an
  empty list it panics.
\<close>

definition resourceReplicationConfigurationDelete ::
  "service \<Rightarrow> ResourceData \<Rightarrow> trace \<Rightarrow> panic + (Diagnostic list \<times> ResourceData \<times> trace)" where
  "resourceReplicationConfigurationDelete env d tr =
     (let diags = []; cn = EFSClient
      in case expandDestinationsToCreate (d_destination d) of
           [] \<Rightarrow> Inl IndexOutOfRange
         | destination # rest \<Rightarrow>
             (let regionConn = EFSConnForRegion (ToString (to_Region destination))
              in case deleteReplicationConfiguration env regionConn (d_Id d) (d_TimeoutDelete d) tr of
                   Inl p \<Rightarrow> Inl p
                 | Inr (err, tr1) \<Rightarrow>
                     if err \<noteq> None then Inr (AppendFromErr diags err, d, tr1)
                     else (case deleteReplicationConfiguration env cn (d_Id d) (d_TimeoutDelete d) tr1 of
                             Inl p \<Rightarrow> Inl p
                           | Inr (err2, tr2) \<Rightarrow>
                               if err2 \<noteq> None then Inr (AppendFromErr diags err2, d, tr2)
                               else Inr (diags, d, tr2))))"

subsection \<open>Example services\<close>

text \<open>
  A service that answers from a script: fixed answers for the create and the delete
  request, and for the describe requests one answer each in the order they arrive (a
  \<open>ReplicationNotFound\<close> error once the script is used up); every wait completes \<open>rounds\<close>
  refreshes before it times out.
\<close>

definition example_description :: "string \<Rightarrow> ReplicationConfigurationDescription" where
  "example_description st =
     \<lparr>CreationTime = Some 1700000000,
      Destinations = [Some \<lparr>FileSystemId = Some ''fs-2'', Region = Some ''us-west-2'',
                             Status = Some st\<rparr>],
      OriginalSourceFileSystemArn = Some ''arn:aws:elasticfilesystem:us-east-1:1:file-system/fs-1'',
      SourceFileSystemArn = Some ''arn:aws:elasticfilesystem:us-east-1:1:file-system/fs-1'',
      SourceFileSystemId = Some ''fs-1'',
      SourceFileSystemRegion = Some ''us-east-1''\<rparr>"

definition one_page ::
  "string \<Rightarrow> DescribeReplicationConfigurationsOutput option list \<times> error option" where
  "one_page st = ([Some \<lparr>Replications = [Some (example_description st)]\<rparr>], None)"

definition absent :: "DescribeReplicationConfigurationsOutput option list \<times> error option" where
  "absent = ([], Some (APIError ''ReplicationNotFound''))"

fun is_describe :: "call \<Rightarrow> bool" where
  "is_describe (DescribeReplicationConfigurationsCall cn input) = True"
| "is_describe c = False"

definition scripted ::
  "error option \<Rightarrow> error option
     \<Rightarrow> (DescribeReplicationConfigurationsOutput option list \<times> error option) list
     \<Rightarrow> nat \<Rightarrow> service" where
  "scripted create_err delete_err answers rounds =
     \<lparr>CreateReplicationConfiguration = (\<lambda>tr cn input. create_err),
      DeleteReplicationConfiguration = (\<lambda>tr cn input. delete_err),
      DescribeReplicationConfigurations =
        (\<lambda>tr cn input.
           (let k = length (filter is_describe tr)
            in if k < length answers then answers ! k else absent)),
      refreshes_before_timeout = (\<lambda>tr timeout. rounds)\<rparr>"

definition example_data :: ResourceData where
  "example_data =
     \<lparr>d_Id = ''fs-1'',
      d_IsNewResource = False,
      d_creation_time = 0,
      d_destination = [MapValue (Some [(''region'', StringValue ''us-west-2''),
                                       (''kms_key_id'', StringValue ''key-1'')])],
      d_original_source_file_system_arn = '''',
      d_source_file_system_arn = '''',
      d_source_file_system_id = ''fs-1'',
      d_source_file_system_region = '''',
      d_TimeoutCreate = 1200000000000,
      d_TimeoutDelete = 1200000000000,
      Set_destination = (\<lambda>v. None)\<rparr>"

subsection \<open>Observations of a wait\<close>

text \<open>
  Every refresh of a wait sends the same describe request. \<open>observed env cn id' tr k\<close> is
  what refresh number \<open>k\<close> (from 0) of a wait that starts after the requests \<open>tr\<close> returns:
  the description, its status and the error.
\<close>

definition refresh_request :: "conn \<Rightarrow> string \<Rightarrow> call" where
  "refresh_request cn id' =
     DescribeReplicationConfigurationsCall cn \<lparr>describe_FileSystemId = Some id'\<rparr>"

definition observed ::
  "service \<Rightarrow> conn \<Rightarrow> string \<Rightarrow> trace \<Rightarrow> nat
     \<Rightarrow> panic + (ReplicationConfigurationDescription option \<times> string \<times> error option)" where
  "observed env cn id' tr k =
     (case statusReplicationConfiguration env cn id' (tr @ replicate k (refresh_request cn id')) of
        Inl p \<Rightarrow> Inl p
      | Inr (r, tr') \<Rightarrow> Inr r)"

text \<open>The client that a request went through.\<close>

fun call_conn :: "call \<Rightarrow> conn" where
  "call_conn (CreateReplicationConfigurationCall cn input) = cn"
| "call_conn (DeleteReplicationConfigurationCall cn input) = cn"
| "call_conn (DescribeReplicationConfigurationsCall cn input) = cn"

section \<open>Theorems\<close>

text \<open>
  C6. The mediaconvert service package enumerates exactly one SDK data source and exactly
  one SDK resource, both with type name \<open>aws_media_convert_queue\<close>, name \<open>Queue\<close> and the ARN
  attribute as tag identifier, and its lists of framework data sources and framework
  resources are empty.
\<close>

theorem mediaconvert_registration:
  "length SDKDataSources = 1 \<and> length SDKResources = 1
   \<and> map (\<lambda>x. (ds_TypeName x, ds_Name x, ds_Tags x)) SDKDataSources
       = [(''aws_media_convert_queue'', ''Queue'', Some \<lparr>IdentifierAttribute = ''arn''\<rparr>)]
   \<and> map (\<lambda>x. (r_TypeName x, r_Name x, r_Tags x)) SDKResources
       = [(''aws_media_convert_queue'', ''Queue'', Some \<lparr>IdentifierAttribute = ''arn''\<rparr>)]
   \<and> FrameworkDataSources = [] \<and> FrameworkResources = []"
  by (simp add: SDKDataSources_def SDKResources_def FrameworkDataSources_def
      FrameworkResources_def AttrARN_def)

text \<open>
  C7. For every client built by mediaconvert \<open>NewClient\<close> or sfn \<open>NewConn\<close>: with a non-empty
  endpoint string the client's endpoint is that string and a FIPS setting that was enabled
  becomes disabled (any other FIPS setting is kept); with an empty endpoint string neither
  the endpoint nor the FIPS setting changes.
\<close>

theorem endpoint_override:
  "(endpoint c \<noteq> '''' \<longrightarrow>
      BaseEndpoint (NewClient c) = Some (endpoint c)
      \<and> UseFIPSEndpoint (NewClient c) =
          (if UseFIPSEndpoint (aws_sdkv2_config c) = FIPSEndpointStateEnabled
           then FIPSEndpointStateDisabled else UseFIPSEndpoint (aws_sdkv2_config c)))
   \<and> (endpoint c = '''' \<longrightarrow> NewClient c = aws_sdkv2_config c)
   \<and> (conn_endpoint k \<noteq> '''' \<longrightarrow>
      Endpoint (NewConn k) = Some (conn_endpoint k)
      \<and> cfg_UseFIPSEndpoint (NewConn k) =
          (if cfg_UseFIPSEndpoint (session k) = FIPSEndpointStateEnabled
           then FIPSEndpointStateDisabled else cfg_UseFIPSEndpoint (session k)))
   \<and> (conn_endpoint k = '''' \<longrightarrow> NewConn k = session k)"
  by (simp add: NewClient_def NewFromConfig_def NewClient_options_def NewConn_def
      NewConn_cfg_def session_Copy_def empty_Config_def Let_def)

theorem endpoint_override_witness:
  "BaseEndpoint (NewClient \<lparr>aws_sdkv2_config =
        \<lparr>BaseEndpoint = None, UseFIPSEndpoint = FIPSEndpointStateEnabled\<rparr>,
        endpoint = ''http://localhost:4566''\<rparr>) = Some ''http://localhost:4566''
   \<and> UseFIPSEndpoint (NewClient \<lparr>aws_sdkv2_config =
        \<lparr>BaseEndpoint = None, UseFIPSEndpoint = FIPSEndpointStateEnabled\<rparr>,
        endpoint = ''http://localhost:4566''\<rparr>) = FIPSEndpointStateDisabled
   \<and> NewClient \<lparr>aws_sdkv2_config =
        \<lparr>BaseEndpoint = Some ''https://a.example'', UseFIPSEndpoint = FIPSEndpointStateEnabled\<rparr>,
        endpoint = ''''\<rparr>
      = \<lparr>BaseEndpoint = Some ''https://a.example'', UseFIPSEndpoint = FIPSEndpointStateEnabled\<rparr>
   \<and> Endpoint (NewConn \<lparr>session =
        \<lparr>Endpoint = None, cfg_UseFIPSEndpoint = FIPSEndpointStateEnabled\<rparr>,
        conn_endpoint = ''http://localhost:4566''\<rparr>) = Some ''http://localhost:4566''
   \<and> cfg_UseFIPSEndpoint (NewConn \<lparr>session =
        \<lparr>Endpoint = None, cfg_UseFIPSEndpoint = FIPSEndpointStateEnabled\<rparr>,
        conn_endpoint = ''http://localhost:4566''\<rparr>) = FIPSEndpointStateDisabled
   \<and> NewConn \<lparr>session =
        \<lparr>Endpoint = Some ''https://a.example'', cfg_UseFIPSEndpoint = FIPSEndpointStateEnabled\<rparr>,
        conn_endpoint = ''''\<rparr>
      = \<lparr>Endpoint = Some ''https://a.example'', cfg_UseFIPSEndpoint = FIPSEndpointStateEnabled\<rparr>"
  using
    endpoint_override [of
      "\<lparr>aws_sdkv2_config = \<lparr>BaseEndpoint = None, UseFIPSEndpoint = FIPSEndpointStateEnabled\<rparr>,
        endpoint = ''http://localhost:4566''\<rparr>"
      "\<lparr>session = \<lparr>Endpoint = None, cfg_UseFIPSEndpoint = FIPSEndpointStateEnabled\<rparr>,
        conn_endpoint = ''http://localhost:4566''\<rparr>"]
    endpoint_override [of
      "\<lparr>aws_sdkv2_config =
          \<lparr>BaseEndpoint = Some ''https://a.example'', UseFIPSEndpoint = FIPSEndpointStateEnabled\<rparr>,
        endpoint = ''''\<rparr>"
      "\<lparr>session =
          \<lparr>Endpoint = Some ''https://a.example'', cfg_UseFIPSEndpoint = FIPSEndpointStateEnabled\<rparr>,
        conn_endpoint = ''''\<rparr>"]
  by simp

subsection \<open>Finders, delete and read\<close>


lemma collect_fold:
  "foldl (\<lambda>out v. if v \<noteq> None then out @ [v] else out) acc xs = acc @ filter (\<lambda>v. v \<noteq> None) xs"
  by (induction xs arbitrary: acc) auto

lemma collect_page_eq:
  "collect_page page lastPage acc =
     (\<not> lastPage, acc @ (case page of None \<Rightarrow> []
                          | Some pg \<Rightarrow> filter (\<lambda>v. v \<noteq> None) (Replications pg)))"
  unfolding collect_page_def collect_fold by (cases page) simp_all

lemma PagesWithContext_append:
  assumes "\<And>page lastPage acc. fn page lastPage acc = (\<not> lastPage, acc @ g page)"
  shows "PagesWithContext pages failed fn acc = acc @ concat (map g pages)"
proof (induction pages arbitrary: acc)
  case Nil
  then show ?case by simp
next
  case (Cons page pages)
  have step: "fn page (pages = [] \<and> \<not> failed) acc = (\<not> (pages = [] \<and> \<not> failed), acc @ g page)"
    by (rule assms)
  show ?case
  proof (cases "pages = [] \<and> \<not> failed")
    case True
    then show ?thesis using step by simp
  next
    case False
    then show ?thesis using step by (simp add: Cons.IH)
  qed
qed

lemma PagesWithContext_collect:
  "PagesWithContext pages failed collect_page acc =
     acc @ concat (map (\<lambda>page. case page of None \<Rightarrow> []
                          | Some pg \<Rightarrow> filter (\<lambda>v. v \<noteq> None) (Replications pg)) pages)"
  by (rule PagesWithContext_append) (rule collect_page_eq)

lemma ErrCodeEquals_None [simp]: "\<not> ErrCodeEquals None codes"
  by (simp add: ErrCodeEquals_def)

lemma ErrCodeEquals_APIError [simp]: "ErrCodeEquals (Some (APIError c)) codes = (c \<in> set codes)"
  by (simp add: ErrCodeEquals_def)

text \<open>
  C5. \<open>findReplicationConfigurations\<close> returns the concatenation, in page order, of the
  non-nil replication descriptions of the non-nil pages of the paginated result, and turns
  a service error with code \<open>FileSystemNotFound\<close> or \<open>ReplicationNotFound\<close> into a
  \<open>retry.NotFoundError\<close> that carries the original error and the request.
\<close>

theorem findReplicationConfigurations_pages:
  assumes "DescribeReplicationConfigurations env tr cn input = (pages, err)"
  shows "(err = None \<longrightarrow>
            findReplicationConfigurations env cn input tr =
              ((concat (map (\<lambda>page. case page of None \<Rightarrow> []
                               | Some pg \<Rightarrow> filter (\<lambda>v. v \<noteq> None) (Replications pg)) pages),
                None),
               tr @ [DescribeReplicationConfigurationsCall cn input]))
       \<and> (ErrCodeEquals err [ErrCodeFileSystemNotFound, ErrCodeReplicationNotFound] \<longrightarrow>
            findReplicationConfigurations env cn input tr =
              (([], Some (NotFoundError err (Some input) 0)),
               tr @ [DescribeReplicationConfigurationsCall cn input]))
       \<and> (\<forall>c. err = Some (APIError c) \<and> (c = ''FileSystemNotFound'' \<or> c = ''ReplicationNotFound'') \<longrightarrow>
            findReplicationConfigurations env cn input tr =
              (([], Some (NotFoundError (Some (APIError c)) (Some input) 0)),
               tr @ [DescribeReplicationConfigurationsCall cn input]))"
  using assms
  by (auto simp add: findReplicationConfigurations_def PagesWithContext_collect Let_def
      ErrCodeFileSystemNotFound_def ErrCodeReplicationNotFound_def simp del: not_None_eq)

text \<open>
  C4. When the \<open>DeleteReplicationConfiguration\<close> request fails with error code
  \<open>FileSystemNotFound\<close> or \<open>ReplicationNotFound\<close>, \<open>deleteReplicationConfiguration\<close> returns
  a nil error without waiting: the delete request is the only request it makes. Any other
  error of the request is returned wrapped.
\<close>

theorem deleteReplicationConfiguration_not_found:
  assumes "DeleteReplicationConfiguration env tr cn \<lparr>delete_SourceFileSystemId = Some fsID\<rparr> = err"
  shows "(ErrCodeEquals err [ErrCodeFileSystemNotFound, ErrCodeReplicationNotFound] \<longrightarrow>
            deleteReplicationConfiguration env cn fsID timeout tr =
              Inr (None, tr @ [DeleteReplicationConfigurationCall cn
                                 \<lparr>delete_SourceFileSystemId = Some fsID\<rparr>]))
       \<and> (\<forall>e. err = Some e
              \<and> \<not> ErrCodeEquals err [ErrCodeFileSystemNotFound, ErrCodeReplicationNotFound] \<longrightarrow>
            deleteReplicationConfiguration env cn fsID timeout tr =
              Inr (Some (Errorf ''deleting EFS Replication Configuration (%s): %w'' [fsID] e),
                   tr @ [DeleteReplicationConfigurationCall cn
                           \<lparr>delete_SourceFileSystemId = Some fsID\<rparr>]))"
  using assms by (auto simp add: deleteReplicationConfiguration_def Let_def)

text \<open>
  C3. On a resource that is not newly created, when \<open>FindReplicationConfigurationByID\<close>
  reports not-found, the read function clears the resource ID and returns no diagnostics;
  any other error of the lookup gives an error diagnostic and leaves the resource data,
  the ID with it, as they were.
\<close>

theorem read_not_found:
  assumes "\<not> d_IsNewResource d"
    and "FindReplicationConfigurationByID env EFSClient (d_Id d) tr = Inr ((replication, err), tr')"
  shows "(NotFound err \<longrightarrow>
            resourceReplicationConfigurationRead env d tr = Inr ([], d\<lparr>d_Id := ''''\<rparr>, tr'))
       \<and> (err \<noteq> None \<and> \<not> NotFound err \<longrightarrow>
            (\<exists>diags. resourceReplicationConfigurationRead env d tr = Inr (diags, d, tr')
                     \<and> HasError diags))"
  using assms
  by (auto simp add: resourceReplicationConfigurationRead_def Let_def SetId_def HasError_def
      AppendErrorf_def)

subsection \<open>The first destination\<close>


lemma AssertSinglePtrResult_ok:
  "AssertSinglePtrResult a = (r, None) \<Longrightarrow> \<exists>v. r = Some v"
  by (auto simp add: AssertSinglePtrResult_def split: list.splits option.splits)

lemma findReplicationConfigurations_trace:
  "\<exists>out e. findReplicationConfigurations env cn input tr =
      ((out, e), tr @ [DescribeReplicationConfigurationsCall cn input])"
  by (cases "DescribeReplicationConfigurations env tr cn input")
    (simp add: findReplicationConfigurations_def Let_def)

lemma findReplicationConfiguration_cases:
  "\<exists>r err. findReplicationConfiguration env cn input tr =
      ((r, err), tr @ [DescribeReplicationConfigurationsCall cn input])
      \<and> (err = None \<longrightarrow> r \<noteq> None)"
proof -
  obtain out e where f: "findReplicationConfigurations env cn input tr =
      ((out, e), tr @ [DescribeReplicationConfigurationsCall cn input])"
    using findReplicationConfigurations_trace by blast
  show ?thesis
  proof (cases e)
    case None
    obtain r e' where a: "AssertSinglePtrResult out = (r, e')"
      by (cases "AssertSinglePtrResult out")
    with AssertSinglePtrResult_ok [of out r] have "e' = None \<longrightarrow> r \<noteq> None" by auto
    with None f a show ?thesis by (simp add: findReplicationConfiguration_def)
  next
    case (Some x)
    with f show ?thesis by (simp add: findReplicationConfiguration_def)
  qed
qed

lemma FindReplicationConfigurationByID_cases:
  "\<exists>r err. FindReplicationConfigurationByID env cn id' tr =
      Inr ((r, err), tr @ [DescribeReplicationConfigurationsCall cn \<lparr>describe_FileSystemId = Some id'\<rparr>])
      \<and> (err = None \<longrightarrow> (\<exists>out d0 ds. r = Some out \<and> Destinations out = Some d0 # ds))
      \<and> (err \<noteq> None \<longrightarrow> r = None)"
proof -
  obtain r err where f: "findReplicationConfiguration env cn \<lparr>describe_FileSystemId = Some id'\<rparr> tr =
      ((r, err), tr @ [DescribeReplicationConfigurationsCall cn \<lparr>describe_FileSystemId = Some id'\<rparr>])"
    and ok: "err = None \<longrightarrow> r \<noteq> None"
    using findReplicationConfiguration_cases by blast
  show ?thesis
    using f ok
    by (auto simp add: FindReplicationConfigurationByID_def Let_def
        split: option.splits list.splits)
qed

lemma statusReplicationConfiguration_cases:
  "\<exists>res s err. statusReplicationConfiguration env cn id' tr =
      Inr ((res, s, err), tr @ [DescribeReplicationConfigurationsCall cn \<lparr>describe_FileSystemId = Some id'\<rparr>])"
proof -
  obtain r err where f: "FindReplicationConfigurationByID env cn id' tr =
      Inr ((r, err), tr @ [DescribeReplicationConfigurationsCall cn \<lparr>describe_FileSystemId = Some id'\<rparr>])"
    and ok: "err = None \<longrightarrow> (\<exists>out d0 ds. r = Some out \<and> Destinations out = Some d0 # ds)"
    using FindReplicationConfigurationByID_cases by blast
  show ?thesis
  proof (cases "NotFound err")
    case True
    with f show ?thesis by (simp add: statusReplicationConfiguration_def)
  next
    case nf: False
    show ?thesis
    proof (cases err)
      case None
      with ok obtain out d0 ds where "r = Some out" "Destinations out = Some d0 # ds" by blast
      with f nf None show ?thesis by (simp add: statusReplicationConfiguration_def)
    next
      case (Some e)
      with f nf show ?thesis by (simp add: statusReplicationConfiguration_def)
    qed
  qed
qed

lemma flattenDestinations_length:
  "length (flattenDestinations (Some d0 # ds)) > 0"
  by simp

lemma copy_key_in_bounds:
  "i < length destinations \<Longrightarrow> i < length v \<Longrightarrow> copy_key destinations v i k \<noteq> Inl IndexOutOfRange"
  by (auto simp add: copy_key_def split: iface.splits option.splits)

lemma copy_key_length:
  "copy_key destinations v i k = Inr ds \<Longrightarrow> length ds = length destinations"
  by (auto simp add: copy_key_def split: iface.splits option.splits if_splits)

lemma read_copy_in_bounds:
  assumes "0 < length destinations"
  shows "read_copy d destinations \<noteq> Inl IndexOutOfRange"
proof (cases "d_destination d = []")
  case True
  then show ?thesis by (simp add: read_copy_def GetOk_destination_def)
next
  case False
  then have v: "0 < length (d_destination d)" by simp
  show ?thesis
  proof (cases "copy_key destinations (d_destination d) 0 ''availability_zone_name''")
    case (Inl p)
    with copy_key_in_bounds [OF assms v] have "p \<noteq> IndexOutOfRange" by auto
    with Inl False show ?thesis by (simp add: read_copy_def GetOk_destination_def)
  next
    case (Inr ds)
    then have "0 < length ds" using copy_key_length assms by fastforce
    then have "copy_key ds (d_destination d) 0 AttrKMSKeyID \<noteq> Inl IndexOutOfRange"
      using v by (rule copy_key_in_bounds)
    with Inr False show ?thesis by (simp add: read_copy_def GetOk_destination_def)
  qed
qed

lemma read_in_bounds:
  "resourceReplicationConfigurationRead env d tr \<noteq> Inl IndexOutOfRange"
proof -
  obtain r err tr' where f: "FindReplicationConfigurationByID env EFSClient (d_Id d) tr = Inr ((r, err), tr')"
    and ok: "err = None \<longrightarrow> (\<exists>out d0 ds. r = Some out \<and> Destinations out = Some d0 # ds)"
    using FindReplicationConfigurationByID_cases by blast
  show ?thesis
  proof (cases err)
    case (Some e)
    with f show ?thesis
      by (simp add: resourceReplicationConfigurationRead_def)
  next
    case None
    with ok obtain out d0 ds where r: "r = Some out" and dst: "Destinations out = Some d0 # ds" by blast
    have "read_copy d (flattenDestinations (Destinations out)) \<noteq> Inl IndexOutOfRange"
      using dst by (intro read_copy_in_bounds) simp
    with f None r show ?thesis
      by (cases "read_copy d (flattenDestinations (Destinations out))")
        (simp_all add: resourceReplicationConfigurationRead_def NotFound_def split: prod.splits)
  qed
qed

text \<open>
  C8. \<open>FindReplicationConfigurationByID\<close> returns a configuration only when its list of
  destinations starts with a non-nil element, and returns an empty-result error for a
  configuration found without one. Hence neither the lookup nor the refresh function
  \<open>statusReplicationConfiguration\<close>, which indexes \<open>output.Destinations[0]\<close> without a guard
  after a successful lookup, ever panics, and the index 0 that the read function uses
  after a successful lookup is in range.
\<close>

theorem destinations_index_in_bounds:
  "(\<forall>out err tr'. FindReplicationConfigurationByID env cn id' tr = Inr ((Some out, err), tr')
        \<longrightarrow> err = None \<and> (\<exists>d0 ds. Destinations out = Some d0 # ds))
   \<and> (\<forall>out tr'. findReplicationConfiguration env cn \<lparr>describe_FileSystemId = Some id'\<rparr> tr
                    = ((Some out, None), tr')
                 \<and> (Destinations out = [] \<or> hd (Destinations out) = None)
        \<longrightarrow> FindReplicationConfigurationByID env cn id' tr
              = Inr ((None, Some (EmptyResultError (Some \<lparr>describe_FileSystemId = Some id'\<rparr>))), tr'))
   \<and> (\<forall>p. FindReplicationConfigurationByID env cn id' tr \<noteq> Inl p)
   \<and> (\<forall>p. statusReplicationConfiguration env cn id' tr \<noteq> Inl p)
   \<and> resourceReplicationConfigurationRead env d tr \<noteq> Inl IndexOutOfRange"
proof -
  have a: "\<forall>out err tr'. FindReplicationConfigurationByID env cn id' tr = Inr ((Some out, err), tr')
        \<longrightarrow> err = None \<and> (\<exists>d0 ds. Destinations out = Some d0 # ds)"
    using FindReplicationConfigurationByID_cases [of env cn id' tr] by auto
  have b: "\<forall>out tr'. findReplicationConfiguration env cn \<lparr>describe_FileSystemId = Some id'\<rparr> tr
                    = ((Some out, None), tr')
                 \<and> (Destinations out = [] \<or> hd (Destinations out) = None)
        \<longrightarrow> FindReplicationConfigurationByID env cn id' tr
              = Inr ((None, Some (EmptyResultError (Some \<lparr>describe_FileSystemId = Some id'\<rparr>))), tr')"
    by (auto simp add: FindReplicationConfigurationByID_def Let_def NewEmptyResultError_def
        split: list.splits)
  have c: "\<forall>p. FindReplicationConfigurationByID env cn id' tr \<noteq> Inl p"
    using FindReplicationConfigurationByID_cases [of env cn id' tr] by auto
  have e: "\<forall>p. statusReplicationConfiguration env cn id' tr \<noteq> Inl p"
    using statusReplicationConfiguration_cases [of env cn id' tr] by auto
  show ?thesis using a b c e read_in_bounds by blast
qed

subsection \<open>The claims on the example services\<close>


theorem findReplicationConfigurations_pages_witness:
  "findReplicationConfigurations
       (scripted None None
          [([Some \<lparr>Replications = [Some (example_description ''ENABLED''), None]\<rparr>, None,
             Some \<lparr>Replications = [Some (example_description ''ENABLING'')]\<rparr>], None)] 0)
       EFSClient \<lparr>describe_FileSystemId = Some ''fs-1''\<rparr> []
     = (([Some (example_description ''ENABLED''), Some (example_description ''ENABLING'')], None),
        [DescribeReplicationConfigurationsCall EFSClient \<lparr>describe_FileSystemId = Some ''fs-1''\<rparr>])
   \<and> findReplicationConfigurations (scripted None None [] 0)
       EFSClient \<lparr>describe_FileSystemId = Some ''fs-1''\<rparr> []
     = (([], Some (NotFoundError (Some (APIError ''ReplicationNotFound''))
                     (Some \<lparr>describe_FileSystemId = Some ''fs-1''\<rparr>) 0)),
        [DescribeReplicationConfigurationsCall EFSClient \<lparr>describe_FileSystemId = Some ''fs-1''\<rparr>])"
  using
    findReplicationConfigurations_pages [of
      "scripted None None
          [([Some \<lparr>Replications = [Some (example_description ''ENABLED''), None]\<rparr>, None,
             Some \<lparr>Replications = [Some (example_description ''ENABLING'')]\<rparr>], None)] 0"
      "[]" EFSClient "\<lparr>describe_FileSystemId = Some ''fs-1''\<rparr>"
      "[Some \<lparr>Replications = [Some (example_description ''ENABLED''), None]\<rparr>, None,
             Some \<lparr>Replications = [Some (example_description ''ENABLING'')]\<rparr>]" None]
    findReplicationConfigurations_pages [of "scripted None None [] 0"
      "[]" EFSClient "\<lparr>describe_FileSystemId = Some ''fs-1''\<rparr>" "[]"
      "Some (APIError ''ReplicationNotFound'')"]
  by (simp add: scripted_def absent_def ErrCodeReplicationNotFound_def)

theorem deleteReplicationConfiguration_not_found_witness:
  "deleteReplicationConfiguration (scripted None (Some (APIError ''FileSystemNotFound'')) [] 5)
       (EFSConnForRegion ''us-west-2'') ''fs-1'' 1200000000000 []
     = Inr (None, [DeleteReplicationConfigurationCall (EFSConnForRegion ''us-west-2'')
                     \<lparr>delete_SourceFileSystemId = Some ''fs-1''\<rparr>])
   \<and> deleteReplicationConfiguration (scripted None (Some (OtherError ''AccessDenied'')) [] 5)
       EFSClient ''fs-1'' 1200000000000 []
     = Inr (Some (Errorf ''deleting EFS Replication Configuration (%s): %w'' [''fs-1'']
                    (OtherError ''AccessDenied'')),
            [DeleteReplicationConfigurationCall EFSClient
               \<lparr>delete_SourceFileSystemId = Some ''fs-1''\<rparr>])"
  using
    deleteReplicationConfiguration_not_found [of
      "scripted None (Some (APIError ''FileSystemNotFound'')) [] 5" "[]"
      "EFSConnForRegion ''us-west-2''" "''fs-1''" "Some (APIError ''FileSystemNotFound'')"
      1200000000000]
    deleteReplicationConfiguration_not_found [of
      "scripted None (Some (OtherError ''AccessDenied'')) [] 5" "[]"
      EFSClient "''fs-1''" "Some (OtherError ''AccessDenied'')" 1200000000000]
  by (simp add: scripted_def ErrCodeFileSystemNotFound_def ErrCodeEquals_def)

lemma FindByID_absent:
  "FindReplicationConfigurationByID (scripted None None [] 0) EFSClient ''fs-1'' []
     = Inr ((None, Some (NotFoundError (Some (APIError ''ReplicationNotFound''))
                     (Some \<lparr>describe_FileSystemId = Some ''fs-1''\<rparr>) 0)),
            [DescribeReplicationConfigurationsCall EFSClient \<lparr>describe_FileSystemId = Some ''fs-1''\<rparr>])"
  by (simp add: FindReplicationConfigurationByID_def findReplicationConfiguration_def
      findReplicationConfigurations_def scripted_def absent_def ErrCodeReplicationNotFound_def
      Let_def)

lemma FindByID_denied:
  "FindReplicationConfigurationByID (scripted None None [([], Some (OtherError ''AccessDenied''))] 0)
       EFSClient ''fs-1'' []
     = Inr ((None, Some (OtherError ''AccessDenied'')),
            [DescribeReplicationConfigurationsCall EFSClient \<lparr>describe_FileSystemId = Some ''fs-1''\<rparr>])"
  by (simp add: FindReplicationConfigurationByID_def findReplicationConfiguration_def
      findReplicationConfigurations_def scripted_def ErrCodeEquals_def Let_def)

theorem read_not_found_witness:
  "resourceReplicationConfigurationRead (scripted None None [] 0) example_data []
     = Inr ([], example_data\<lparr>d_Id := ''''\<rparr>,
            [DescribeReplicationConfigurationsCall EFSClient \<lparr>describe_FileSystemId = Some ''fs-1''\<rparr>])
   \<and> (\<exists>diags.
        resourceReplicationConfigurationRead
          (scripted None None [([], Some (OtherError ''AccessDenied''))] 0) example_data []
          = Inr (diags, example_data,
             [DescribeReplicationConfigurationsCall EFSClient \<lparr>describe_FileSystemId = Some ''fs-1''\<rparr>])
        \<and> HasError diags)"
proof -
  have new: "\<not> d_IsNewResource example_data" and i: "d_Id example_data = ''fs-1''"
    by (simp_all add: example_data_def)
  have f1: "FindReplicationConfigurationByID (scripted None None [] 0) EFSClient
       (d_Id example_data) []
     = Inr ((None, Some (NotFoundError (Some (APIError ''ReplicationNotFound''))
                     (Some \<lparr>describe_FileSystemId = Some ''fs-1''\<rparr>) 0)),
            [DescribeReplicationConfigurationsCall EFSClient \<lparr>describe_FileSystemId = Some ''fs-1''\<rparr>])"
    by (simp only: i FindByID_absent)
  have f2: "FindReplicationConfigurationByID
       (scripted None None [([], Some (OtherError ''AccessDenied''))] 0) EFSClient
       (d_Id example_data) []
     = Inr ((None, Some (OtherError ''AccessDenied'')),
            [DescribeReplicationConfigurationsCall EFSClient \<lparr>describe_FileSystemId = Some ''fs-1''\<rparr>])"
    by (simp only: i FindByID_denied)
  show ?thesis
    using read_not_found [OF new f1] read_not_found [OF new f2]
    by (simp add: NotFound_def)
qed

lemma find_one:
  "findReplicationConfiguration (scripted None None [([Some \<lparr>Replications =
          [Some ((example_description ''ENABLED'')\<lparr>Destinations := []\<rparr>)]\<rparr>], None)] 0)
       EFSClient \<lparr>describe_FileSystemId = Some ''fs-1''\<rparr> []
   = ((Some ((example_description ''ENABLED'')\<lparr>Destinations := []\<rparr>), None),
      [DescribeReplicationConfigurationsCall EFSClient \<lparr>describe_FileSystemId = Some ''fs-1''\<rparr>])"
  by (simp add: findReplicationConfiguration_def
      findReplicationConfigurations_def scripted_def collect_page_def AssertSinglePtrResult_def)

lemma FindByID_one:
  "FindReplicationConfigurationByID (scripted None None [one_page ''ENABLED''] 0) EFSClient ''fs-1'' []
     = Inr ((Some (example_description ''ENABLED''), None),
            [DescribeReplicationConfigurationsCall EFSClient \<lparr>describe_FileSystemId = Some ''fs-1''\<rparr>])"
  by (simp add: FindReplicationConfigurationByID_def findReplicationConfiguration_def
      findReplicationConfigurations_def scripted_def one_page_def collect_page_def
      AssertSinglePtrResult_def example_description_def Let_def)

theorem destinations_index_in_bounds_witness:
  "(\<exists>d0 ds. Destinations (example_description ''ENABLED'') = Some d0 # ds)
   \<and> FindReplicationConfigurationByID (scripted None None [([Some \<lparr>Replications =
          [Some ((example_description ''ENABLED'')\<lparr>Destinations := []\<rparr>)]\<rparr>], None)] 0)
       EFSClient ''fs-1'' []
     = Inr ((None, Some (EmptyResultError (Some \<lparr>describe_FileSystemId = Some ''fs-1''\<rparr>))),
        [DescribeReplicationConfigurationsCall EFSClient \<lparr>describe_FileSystemId = Some ''fs-1''\<rparr>])"
  using
    destinations_index_in_bounds [of "scripted None None [one_page ''ENABLED''] 0" EFSClient
      "''fs-1''" "[]" example_data]
    destinations_index_in_bounds [of "scripted None None [([Some \<lparr>Replications =
          [Some ((example_description ''ENABLED'')\<lparr>Destinations := []\<rparr>)]\<rparr>], None)] 0" EFSClient
      "''fs-1''" "[]" example_data]
    FindByID_one find_one
  by simp

subsection \<open>The wait loop\<close>


lemma status_request:
  "\<exists>res s err. statusReplicationConfiguration env cn id' tr =
      Inr ((res, s, err), tr @ [refresh_request cn id'])"
  using statusReplicationConfiguration_cases [of env cn id' tr]
  by (simp add: refresh_request_def)

lemma observed_0:
  "statusReplicationConfiguration env cn id' tr = Inr (r, tr') \<Longrightarrow> observed env cn id' tr 0 = Inr r"
  by (simp add: observed_def)

lemma observed_Suc:
  "observed env cn id' (tr @ [refresh_request cn id']) k = observed env cn id' tr (Suc k)"
  by (simp add: observed_def)

lemma append_replicate_Suc:
  "(tr @ [x]) @ replicate k x = tr @ replicate (Suc k) x"
  by simp

lemma refresh_loop_trace:
  assumes R: "Refresh conf = statusReplicationConfiguration env cn id'"
  shows "\<exists>r k. refresh_loop n conf nf occ ls tr = Inr (r, tr @ replicate k (refresh_request cn id'))
            \<and> k \<le> n"
proof (induction n arbitrary: nf occ ls tr)
  case 0
  have "refresh_loop 0 conf nf occ ls tr
      = Inr ((None, Some (TimeoutError None ls (Target conf))), tr @ replicate 0 (refresh_request cn id'))"
    by simp
  then show ?case by blast
next
  case (Suc n)
  let ?c = "refresh_request cn id'"
  obtain res s err where st: "Refresh conf tr = Inr ((res, s, err), tr @ [?c])"
    using status_request [of env cn id' tr] R by auto
  define P where "P x \<longleftrightarrow> (\<exists>r k. x = Inr (r, tr @ replicate k ?c) \<and> k \<le> Suc n)"
    for x :: "panic + ((ReplicationConfigurationDescription option \<times> error option) \<times> trace)"
  have base: "P (Inr (r, tr @ [?c]))" for r
    unfolding P_def by (rule exI [of _ r], rule exI [of _ 1]) simp
  have rec: "P (refresh_loop n conf nf' occ' ls' (tr @ [?c]))" for nf' occ' ls'
  proof -
    from Suc.IH [of nf' occ' ls' "tr @ [?c]"]
    obtain r k where eq: "refresh_loop n conf nf' occ' ls' (tr @ [?c]) = Inr (r, (tr @ [?c]) @ replicate k ?c)"
      and k: "k \<le> n"
      by auto
    show ?thesis
      unfolding P_def
      by (rule exI [of _ r], rule exI [of _ "Suc k"]) (simp add: eq k)
  qed
  have "P (refresh_loop (Suc n) conf nf occ ls tr)"
    by (simp add: st Let_def base rec split: prod.splits)
  then show ?case unfolding P_def .
qed


lemma status_observed:
  obtains r where "statusReplicationConfiguration env cn id' tr = Inr (r, tr @ [refresh_request cn id'])"
    and "observed env cn id' tr 0 = Inr r"
proof -
  obtain res s err where st: "statusReplicationConfiguration env cn id' tr =
      Inr ((res, s, err), tr @ [refresh_request cn id'])"
    using status_request by blast
  then have "observed env cn id' tr 0 = Inr (res, s, err)" by (rule observed_0)
  with st that show ?thesis by blast
qed

lemma created_step:
  assumes conf: "conf = \<lparr>Pending = [ReplicationStatusEnabling], Target = [ReplicationStatusEnabled],
        Refresh = rf, Timeout = t, ContinuousTargetOccurence = 0\<rparr>"
    and st: "rf tr = Inr ((res, s, err), tr')"
  shows "refresh_loop (Suc n) conf nf 0 ls tr =
     (if err \<noteq> None then Inr ((res, err), tr')
      else case res of
             None \<Rightarrow>
               (if nf + 1 > NotFoundChecks
                then Inr ((None, Some (NotFoundError None None (nf + 1))), tr')
                else refresh_loop n conf (nf + 1) 0 s tr')
           | Some out \<Rightarrow>
               (if s = ''ENABLED'' then Inr ((Some out, None), tr')
                else if s = ''ENABLING'' then refresh_loop n conf 0 0 s tr'
                else Inr ((Some out, Some (UnexpectedStateError None s [''ENABLED''])), tr')))"
  by (simp add: conf st continuous_target_def ReplicationStatusEnabling_def
      ReplicationStatusEnabled_def Let_def split: option.splits)

lemma deleted_step:
  assumes conf: "conf = \<lparr>Pending = [ReplicationStatusDeleting], Target = [],
        Refresh = rf, Timeout = t, ContinuousTargetOccurence = 2\<rparr>"
    and st: "rf tr = Inr ((res, s, err), tr')"
  shows "refresh_loop (Suc n) conf nf occ ls tr =
     (if err \<noteq> None then Inr ((res, err), tr')
      else case res of
             None \<Rightarrow>
               (if occ = 1 then Inr ((None, None), tr')
                else refresh_loop n conf nf (occ + 1) s tr')
           | Some out \<Rightarrow>
               (if s = ''DELETING'' then refresh_loop n conf 0 0 s tr'
                else Inr ((Some out, Some (UnexpectedStateError None s [])), tr')))"
  by (auto simp add: conf st continuous_target_def ReplicationStatusDeleting_def
      Let_def split: option.splits)

lemma created_reaches:
  assumes conf: "conf = \<lparr>Pending = [ReplicationStatusEnabling], Target = [ReplicationStatusEnabled],
        Refresh = statusReplicationConfiguration env cn id', Timeout = t,
        ContinuousTargetOccurence = 0\<rparr>"
  shows "k < n \<Longrightarrow> observed env cn id' tr k = Inr (Some out, ''ENABLED'', None) \<Longrightarrow>
     (\<forall>j<k. \<exists>o'. observed env cn id' tr j = Inr (Some o', ''ENABLING'', None)) \<Longrightarrow>
     refresh_loop n conf nf 0 ls tr =
       Inr ((Some out, None), tr @ replicate (Suc k) (refresh_request cn id'))"
proof (induction k arbitrary: n nf ls tr)
  case 0
  then obtain m where n: "n = Suc m" by (cases n) auto
  obtain r where st: "statusReplicationConfiguration env cn id' tr = Inr (r, tr @ [refresh_request cn id'])"
    and ob: "observed env cn id' tr 0 = Inr r"
    by (rule status_observed)
  from ob "0.prems"(2) have r: "r = (Some out, ''ENABLED'', None)" by simp
  show ?case
    unfolding n using created_step [OF conf st [unfolded r]] by simp
next
  case (Suc k)
  then obtain m where n: "n = Suc m" and km: "k < m" by (cases n) auto
  obtain r where st: "statusReplicationConfiguration env cn id' tr = Inr (r, tr @ [refresh_request cn id'])"
    and ob: "observed env cn id' tr 0 = Inr r"
    by (rule status_observed)
  from Suc.prems(3) obtain o' where "observed env cn id' tr 0 = Inr (Some o', ''ENABLING'', None)"
    by blast
  with ob have r: "r = (Some o', ''ENABLING'', None)" by simp
  have step: "refresh_loop (Suc m) conf nf 0 ls tr
      = refresh_loop m conf 0 0 ''ENABLING'' (tr @ [refresh_request cn id'])"
    using created_step [OF conf st [unfolded r]] by simp
  have o1: "observed env cn id' (tr @ [refresh_request cn id']) k = Inr (Some out, ''ENABLED'', None)"
    using Suc.prems(2) by (simp only: observed_Suc)
  have o2: "\<forall>j<k. \<exists>o'. observed env cn id' (tr @ [refresh_request cn id']) j
      = Inr (Some o', ''ENABLING'', None)"
    using Suc.prems(3) by (simp add: observed_Suc)
  show ?case
    unfolding n step using Suc.IH [OF km o1 o2] by simp
qed

lemma created_unexpected:
  assumes conf: "conf = \<lparr>Pending = [ReplicationStatusEnabling], Target = [ReplicationStatusEnabled],
        Refresh = statusReplicationConfiguration env cn id', Timeout = t,
        ContinuousTargetOccurence = 0\<rparr>"
  shows "k < n \<Longrightarrow> observed env cn id' tr k = Inr (Some out, s, None) \<Longrightarrow>
     s \<noteq> ''ENABLED'' \<Longrightarrow> s \<noteq> ''ENABLING'' \<Longrightarrow>
     (\<forall>j<k. \<exists>o'. observed env cn id' tr j = Inr (Some o', ''ENABLING'', None)) \<Longrightarrow>
     refresh_loop n conf nf 0 ls tr =
       Inr ((Some out, Some (UnexpectedStateError None s [''ENABLED''])),
            tr @ replicate (Suc k) (refresh_request cn id'))"
proof (induction k arbitrary: n nf ls tr)
  case 0
  then obtain m where n: "n = Suc m" by (cases n) auto
  obtain r where st: "statusReplicationConfiguration env cn id' tr = Inr (r, tr @ [refresh_request cn id'])"
    and ob: "observed env cn id' tr 0 = Inr r"
    by (rule status_observed)
  from ob "0.prems"(2) have r: "r = (Some out, s, None)" by simp
  show ?case
    unfolding n using created_step [OF conf st [unfolded r]] "0.prems"(3,4) by simp
next
  case (Suc k)
  then obtain m where n: "n = Suc m" and km: "k < m" by (cases n) auto
  obtain r where st: "statusReplicationConfiguration env cn id' tr = Inr (r, tr @ [refresh_request cn id'])"
    and ob: "observed env cn id' tr 0 = Inr r"
    by (rule status_observed)
  from Suc.prems(5) obtain o' where "observed env cn id' tr 0 = Inr (Some o', ''ENABLING'', None)"
    by blast
  with ob have r: "r = (Some o', ''ENABLING'', None)" by simp
  have step: "refresh_loop (Suc m) conf nf 0 ls tr
      = refresh_loop m conf 0 0 ''ENABLING'' (tr @ [refresh_request cn id'])"
    using created_step [OF conf st [unfolded r]] by simp
  have o1: "observed env cn id' (tr @ [refresh_request cn id']) k = Inr (Some out, s, None)"
    using Suc.prems(2) by (simp only: observed_Suc)
  have o2: "\<forall>j<k. \<exists>o'. observed env cn id' (tr @ [refresh_request cn id']) j
      = Inr (Some o', ''ENABLING'', None)"
    using Suc.prems(5) by (simp add: observed_Suc)
  show ?case
    unfolding n step using Suc.IH [OF km o1 Suc.prems(3,4) o2] by simp
qed

lemma created_timeout:
  assumes conf: "conf = \<lparr>Pending = [ReplicationStatusEnabling], Target = [ReplicationStatusEnabled],
        Refresh = statusReplicationConfiguration env cn id', Timeout = t,
        ContinuousTargetOccurence = 0\<rparr>"
  shows "(\<forall>j<n. \<exists>o'. observed env cn id' tr j = Inr (Some o', ''ENABLING'', None)) \<Longrightarrow>
     refresh_loop n conf nf 0 ls tr =
       Inr ((None, Some (TimeoutError None (if n = 0 then ls else ''ENABLING'') [''ENABLED''])),
            tr @ replicate n (refresh_request cn id'))"
proof (induction n arbitrary: nf ls tr)
  case 0
  show ?case by (simp add: conf ReplicationStatusEnabled_def)
next
  case (Suc n)
  obtain r where st: "statusReplicationConfiguration env cn id' tr = Inr (r, tr @ [refresh_request cn id'])"
    and ob: "observed env cn id' tr 0 = Inr r"
    by (rule status_observed)
  from Suc.prems obtain o' where "observed env cn id' tr 0 = Inr (Some o', ''ENABLING'', None)"
    by blast
  with ob have r: "r = (Some o', ''ENABLING'', None)" by simp
  have step: "refresh_loop (Suc n) conf nf 0 ls tr
      = refresh_loop n conf 0 0 ''ENABLING'' (tr @ [refresh_request cn id'])"
    using created_step [OF conf st [unfolded r]] by simp
  have o2: "\<forall>j<n. \<exists>o'. observed env cn id' (tr @ [refresh_request cn id']) j
      = Inr (Some o', ''ENABLING'', None)"
    using Suc.prems by (simp add: observed_Suc)
  show ?case
    unfolding step using Suc.IH [OF o2, of 0 "''ENABLING''"] by simp
qed

lemma status_nil_state:
  "statusReplicationConfiguration env cn id' tr = Inr ((None, s, None), tr') \<Longrightarrow> s = ''''"
  by (auto simp add: statusReplicationConfiguration_def
      split: sum.splits if_splits option.splits list.splits)

lemma created_success_only:
  assumes conf: "conf = \<lparr>Pending = [ReplicationStatusEnabling], Target = [ReplicationStatusEnabled],
        Refresh = statusReplicationConfiguration env cn id', Timeout = t,
        ContinuousTargetOccurence = 0\<rparr>"
  shows "refresh_loop n conf nf 0 ls tr = Inr ((r, None), tr') \<Longrightarrow>
     \<exists>k out. k < n \<and> r = Some out
        \<and> observed env cn id' tr k = Inr (Some out, ''ENABLED'', None)
        \<and> tr' = tr @ replicate (Suc k) (refresh_request cn id')
        \<and> (\<forall>j<k. (\<exists>o'. observed env cn id' tr j = Inr (Some o', ''ENABLING'', None))
                  \<or> observed env cn id' tr j = Inr (None, '''', None))"
proof (induction n arbitrary: nf ls tr)
  case 0
  then show ?case by simp
next
  case (Suc n)
  let ?c = "refresh_request cn id'"
  obtain res s err where st: "statusReplicationConfiguration env cn id' tr = Inr ((res, s, err), tr @ [?c])"
    using status_request by blast
  have ob: "observed env cn id' tr 0 = Inr (res, s, err)" using st by (rule observed_0)
  note step = created_step [OF conf st, of n nf ls]
  have cont: "\<exists>k out. k < Suc n \<and> r = Some out
        \<and> observed env cn id' tr k = Inr (Some out, ''ENABLED'', None)
        \<and> tr' = tr @ replicate (Suc k) ?c
        \<and> (\<forall>j<k. (\<exists>o'. observed env cn id' tr j = Inr (Some o', ''ENABLING'', None))
                  \<or> observed env cn id' tr j = Inr (None, '''', None))"
    if rec: "refresh_loop n conf nf' 0 ls' (tr @ [?c]) = Inr ((r, None), tr')"
      and here: "(\<exists>o'. observed env cn id' tr 0 = Inr (Some o', ''ENABLING'', None))
                  \<or> observed env cn id' tr 0 = Inr (None, '''', None)"
    for nf' ls'
  proof -
    from Suc.IH [OF rec] obtain k out where k: "k < n" and r: "r = Some out"
      and o: "observed env cn id' (tr @ [?c]) k = Inr (Some out, ''ENABLED'', None)"
      and t: "tr' = (tr @ [?c]) @ replicate (Suc k) ?c"
      and p: "\<forall>j<k. (\<exists>o'. observed env cn id' (tr @ [?c]) j = Inr (Some o', ''ENABLING'', None))
                  \<or> observed env cn id' (tr @ [?c]) j = Inr (None, '''', None)"
      by blast
    have p': "\<forall>j<Suc k. (\<exists>o'. observed env cn id' tr j = Inr (Some o', ''ENABLING'', None))
                  \<or> observed env cn id' tr j = Inr (None, '''', None)"
    proof (intro allI impI)
      fix j assume "j < Suc k"
      show "(\<exists>o'. observed env cn id' tr j = Inr (Some o', ''ENABLING'', None))
                  \<or> observed env cn id' tr j = Inr (None, '''', None)"
      proof (cases j)
        case 0
        with here show ?thesis by simp
      next
        case (Suc i)
        with \<open>j < Suc k\<close> have "i < k" by simp
        with p show ?thesis unfolding Suc observed_Suc by blast
      qed
    qed
    have "Suc k < Suc n" using k by simp
    moreover have "observed env cn id' tr (Suc k) = Inr (Some out, ''ENABLED'', None)"
      using o by (simp only: observed_Suc)
    moreover have "tr' = tr @ replicate (Suc (Suc k)) ?c" using t by simp
    ultimately show ?thesis using r p' by blast
  qed
  show ?case
  proof (cases "err \<noteq> None")
    case True
    with Suc.prems step show ?thesis by simp
  next
    case noerr: False
    show ?thesis
    proof (cases res)
      case None
      show ?thesis
      proof (cases "nf + 1 > NotFoundChecks")
        case True
        with Suc.prems step noerr None show ?thesis by simp
      next
        case False
        with Suc.prems step noerr None
        have rec: "refresh_loop n conf (nf + 1) 0 s (tr @ [?c]) = Inr ((r, None), tr')" by simp
        have s: "s = ''''"
          using st noerr None status_nil_state by simp
        have "observed env cn id' tr 0 = Inr (None, '''', None)"
          using ob noerr None s by simp
        with cont [OF rec] show ?thesis by blast
      qed
    next
      case (Some out)
      show ?thesis
      proof (cases "s = ''ENABLED''")
        case True
        with Suc.prems step noerr Some
        have "r = Some out" and "tr' = tr @ replicate (Suc 0) ?c" by simp_all
        moreover have "observed env cn id' tr 0 = Inr (Some out, ''ENABLED'', None)"
          using ob noerr Some True by simp
        ultimately show ?thesis by blast
      next
        case ne: False
        show ?thesis
        proof (cases "s = ''ENABLING''")
          case True
          with Suc.prems step noerr Some ne
          have rec: "refresh_loop n conf 0 0 s (tr @ [?c]) = Inr ((r, None), tr')" by simp
          have "observed env cn id' tr 0 = Inr (Some out, ''ENABLING'', None)"
            using ob noerr Some True by simp
          with cont [OF rec] show ?thesis by blast
        next
          case False
          with Suc.prems step noerr Some ne show ?thesis by simp
        qed
      qed
    qed
  qed
qed


lemma type_assertion_id:
  "(case x of Inl p \<Rightarrow> Inl p
    | Inr ((outputRaw, err), tr') \<Rightarrow>
        (case outputRaw of Some output \<Rightarrow> Inr ((Some output, err), tr')
         | None \<Rightarrow> Inr ((None, err), tr'))) = x"
  by (auto split: sum.splits option.splits)

lemma waitReplicationConfigurationCreated_loop:
  "waitReplicationConfigurationCreated env cn id' timeout tr =
     refresh_loop (refreshes_before_timeout env tr timeout)
       \<lparr>Pending = [ReplicationStatusEnabling], Target = [ReplicationStatusEnabled],
        Refresh = statusReplicationConfiguration env cn id', Timeout = timeout,
        ContinuousTargetOccurence = 0\<rparr> 0 0 '''' tr"
  unfolding waitReplicationConfigurationCreated_def Let_def type_assertion_id
  by (simp add: WaitForStateContext_def)

lemma waitReplicationConfigurationDeleted_loop:
  "waitReplicationConfigurationDeleted env cn id' timeout tr =
     refresh_loop (refreshes_before_timeout env tr timeout)
       \<lparr>Pending = [ReplicationStatusDeleting], Target = [],
        Refresh = statusReplicationConfiguration env cn id', Timeout = timeout,
        ContinuousTargetOccurence = 2\<rparr> 0 0 '''' tr"
  unfolding waitReplicationConfigurationDeleted_def Let_def type_assertion_id
  by (simp add: WaitForStateContext_def)

text \<open>
  C1. \<open>waitReplicationConfigurationCreated\<close> polls the status through
  \<open>statusReplicationConfiguration\<close> with \<open>ENABLING\<close> as the only pending state. With \<open>n\<close> the
  number of refreshes that complete before the timeout: if refresh \<open>k < n\<close> is the first one
  not to observe \<open>ENABLING\<close> and it observes \<open>ENABLED\<close>, the wait returns the description
  observed there and a nil error, after \<open>k + 1\<close> describe requests; the wait returns a nil
  error only in such a case (before it, refreshes may also have found nothing); if all \<open>n\<close>
  refreshes observe \<open>ENABLING\<close>, the wait returns a timeout error and no description; a
  status other than \<open>ENABLING\<close> and \<open>ENABLED\<close> ends the wait with an unexpected-state error;
  and the wait never panics.
\<close>

theorem waitReplicationConfigurationCreated_enabled:
  assumes n: "refreshes_before_timeout env tr timeout = n"
  shows
    "(\<forall>k out. k < n \<and> observed env cn id' tr k = Inr (Some out, ''ENABLED'', None)
          \<and> (\<forall>j<k. \<exists>o'. observed env cn id' tr j = Inr (Some o', ''ENABLING'', None))
        \<longrightarrow> waitReplicationConfigurationCreated env cn id' timeout tr
              = Inr ((Some out, None), tr @ replicate (Suc k) (refresh_request cn id')))
     \<and> (\<forall>r tr'. waitReplicationConfigurationCreated env cn id' timeout tr = Inr ((r, None), tr')
        \<longrightarrow> (\<exists>k out. k < n \<and> r = Some out
               \<and> observed env cn id' tr k = Inr (Some out, ''ENABLED'', None)
               \<and> tr' = tr @ replicate (Suc k) (refresh_request cn id')
               \<and> (\<forall>j<k. (\<exists>o'. observed env cn id' tr j = Inr (Some o', ''ENABLING'', None))
                         \<or> observed env cn id' tr j = Inr (None, '''', None))))
     \<and> ((\<forall>j<n. \<exists>o'. observed env cn id' tr j = Inr (Some o', ''ENABLING'', None))
        \<longrightarrow> waitReplicationConfigurationCreated env cn id' timeout tr
              = Inr ((None, Some (TimeoutError None (if n = 0 then '''' else ''ENABLING'')
                                    [''ENABLED''])),
                     tr @ replicate n (refresh_request cn id')))
     \<and> (\<forall>k out s. k < n \<and> observed env cn id' tr k = Inr (Some out, s, None)
          \<and> s \<noteq> ''ENABLED'' \<and> s \<noteq> ''ENABLING''
          \<and> (\<forall>j<k. \<exists>o'. observed env cn id' tr j = Inr (Some o', ''ENABLING'', None))
        \<longrightarrow> (\<exists>r. waitReplicationConfigurationCreated env cn id' timeout tr
                   = Inr ((r, Some (UnexpectedStateError None s [''ENABLED''])),
                          tr @ replicate (Suc k) (refresh_request cn id'))))
     \<and> (\<forall>p. waitReplicationConfigurationCreated env cn id' timeout tr \<noteq> Inl p)"
proof -
  let ?conf = "\<lparr>Pending = [ReplicationStatusEnabling], Target = [ReplicationStatusEnabled],
        Refresh = statusReplicationConfiguration env cn id', Timeout = timeout,
        ContinuousTargetOccurence = 0\<rparr>"
  have w: "waitReplicationConfigurationCreated env cn id' timeout tr
      = refresh_loop n ?conf 0 0 '''' tr"
    by (simp only: waitReplicationConfigurationCreated_loop n)
  have a: "\<forall>k out. k < n \<and> observed env cn id' tr k = Inr (Some out, ''ENABLED'', None)
          \<and> (\<forall>j<k. \<exists>o'. observed env cn id' tr j = Inr (Some o', ''ENABLING'', None))
        \<longrightarrow> waitReplicationConfigurationCreated env cn id' timeout tr
              = Inr ((Some out, None), tr @ replicate (Suc k) (refresh_request cn id'))"
    unfolding w using created_reaches [OF refl] by blast
  have b: "\<forall>r tr'. waitReplicationConfigurationCreated env cn id' timeout tr = Inr ((r, None), tr')
        \<longrightarrow> (\<exists>k out. k < n \<and> r = Some out
               \<and> observed env cn id' tr k = Inr (Some out, ''ENABLED'', None)
               \<and> tr' = tr @ replicate (Suc k) (refresh_request cn id')
               \<and> (\<forall>j<k. (\<exists>o'. observed env cn id' tr j = Inr (Some o', ''ENABLING'', None))
                         \<or> observed env cn id' tr j = Inr (None, '''', None)))"
    unfolding w using created_success_only [OF refl] by blast
  have c: "(\<forall>j<n. \<exists>o'. observed env cn id' tr j = Inr (Some o', ''ENABLING'', None))
        \<longrightarrow> waitReplicationConfigurationCreated env cn id' timeout tr
              = Inr ((None, Some (TimeoutError None (if n = 0 then '''' else ''ENABLING'')
                                    [''ENABLED''])),
                     tr @ replicate n (refresh_request cn id'))"
    unfolding w using created_timeout [OF refl] by blast
  have d: "\<forall>k out s. k < n \<and> observed env cn id' tr k = Inr (Some out, s, None)
          \<and> s \<noteq> ''ENABLED'' \<and> s \<noteq> ''ENABLING''
          \<and> (\<forall>j<k. \<exists>o'. observed env cn id' tr j = Inr (Some o', ''ENABLING'', None))
        \<longrightarrow> (\<exists>r. waitReplicationConfigurationCreated env cn id' timeout tr
                   = Inr ((r, Some (UnexpectedStateError None s [''ENABLED''])),
                          tr @ replicate (Suc k) (refresh_request cn id')))"
    unfolding w using created_unexpected [OF refl] by blast
  have e: "\<forall>p. waitReplicationConfigurationCreated env cn id' timeout tr \<noteq> Inl p"
    unfolding w using refresh_loop_trace [of ?conf env cn id' n 0 0 "''''" tr] by auto
  from a b c d e show ?thesis by (intro conjI)
qed

lemma observed_absent_iff:
  "observed env cn id' tr j = Inr (None, '''', None) \<longleftrightarrow>
     (\<exists>r e t. FindReplicationConfigurationByID env cn id' (tr @ replicate j (refresh_request cn id'))
                 = Inr ((r, e), t) \<and> NotFound e)"
proof -
  let ?tr = "tr @ replicate j (refresh_request cn id')"
  obtain r err t where f: "FindReplicationConfigurationByID env cn id' ?tr = Inr ((r, err), t)"
    and ok: "err = None \<longrightarrow> (\<exists>out d0 ds. r = Some out \<and> Destinations out = Some d0 # ds)"
    using FindReplicationConfigurationByID_cases by blast
  show ?thesis
  proof (cases "NotFound err")
    case True
    with f show ?thesis by (simp add: observed_def statusReplicationConfiguration_def)
  next
    case nf: False
    show ?thesis
    proof (cases err)
      case None
      with ok obtain out d0 ds where "r = Some out" "Destinations out = Some d0 # ds" by blast
      with f nf None show ?thesis by (simp add: observed_def statusReplicationConfiguration_def)
    next
      case (Some e)
      with f nf show ?thesis by (simp add: observed_def statusReplicationConfiguration_def)
    qed
  qed
qed

lemma deleted_reaches:
  assumes conf: "conf = \<lparr>Pending = [ReplicationStatusDeleting], Target = [],
        Refresh = statusReplicationConfiguration env cn id', Timeout = t,
        ContinuousTargetOccurence = 2\<rparr>"
  shows "k + 2 \<le> n \<Longrightarrow>
     (\<forall>j<k. \<exists>o'. observed env cn id' tr j = Inr (Some o', ''DELETING'', None)) \<Longrightarrow>
     observed env cn id' tr k = Inr (None, '''', None) \<Longrightarrow>
     observed env cn id' tr (Suc k) = Inr (None, '''', None) \<Longrightarrow>
     refresh_loop n conf nf 0 ls tr =
       Inr ((None, None), tr @ replicate (k + 2) (refresh_request cn id'))"
proof (induction k arbitrary: n nf ls tr)
  case 0
  let ?c = "refresh_request cn id'"
  from "0.prems"(1) obtain m where n: "n = Suc (Suc m)"
    by (cases n; cases "n - 1") auto
  obtain r where st: "statusReplicationConfiguration env cn id' tr = Inr (r, tr @ [?c])"
    and ob: "observed env cn id' tr 0 = Inr r"
    by (rule status_observed)
  from ob "0.prems"(3) have r: "r = (None, '''', None)" by simp
  obtain r2 where st2: "statusReplicationConfiguration env cn id' (tr @ [?c]) = Inr (r2, (tr @ [?c]) @ [?c])"
    and ob2: "observed env cn id' (tr @ [?c]) 0 = Inr r2"
    by (rule status_observed)
  from ob2 "0.prems"(4) have r2: "r2 = (None, '''', None)" by (simp add: observed_Suc)
  have s1: "refresh_loop (Suc (Suc m)) conf nf 0 ls tr = refresh_loop (Suc m) conf nf 1 '''' (tr @ [?c])"
    using deleted_step [OF conf st [unfolded r]] by simp
  have s2: "refresh_loop (Suc m) conf nf 1 '''' (tr @ [?c]) = Inr ((None, None), (tr @ [?c]) @ [?c])"
    using deleted_step [OF conf st2 [unfolded r2]] by simp
  show ?case unfolding n s1 s2 by simp
next
  case (Suc k)
  let ?c = "refresh_request cn id'"
  from Suc.prems(1) obtain m where n: "n = Suc m" and km: "k + 2 \<le> m" by (cases n) auto
  obtain r where st: "statusReplicationConfiguration env cn id' tr = Inr (r, tr @ [?c])"
    and ob: "observed env cn id' tr 0 = Inr r"
    by (rule status_observed)
  from Suc.prems(2) obtain o' where "observed env cn id' tr 0 = Inr (Some o', ''DELETING'', None)"
    by blast
  with ob have r: "r = (Some o', ''DELETING'', None)" by simp
  have step: "refresh_loop (Suc m) conf nf 0 ls tr = refresh_loop m conf 0 0 ''DELETING'' (tr @ [?c])"
    using deleted_step [OF conf st [unfolded r]] by simp
  have o1: "\<forall>j<k. \<exists>o'. observed env cn id' (tr @ [?c]) j = Inr (Some o', ''DELETING'', None)"
    using Suc.prems(2) by (simp add: observed_Suc)
  have o2: "observed env cn id' (tr @ [?c]) k = Inr (None, '''', None)"
    using Suc.prems(3) by (simp only: observed_Suc)
  have o3: "observed env cn id' (tr @ [?c]) (Suc k) = Inr (None, '''', None)"
    using Suc.prems(4) by (simp only: observed_Suc)
  show ?case
    unfolding n step using Suc.IH [OF km o1 o2 o3] by simp
qed

lemma deleted_success_only:
  assumes conf: "conf = \<lparr>Pending = [ReplicationStatusDeleting], Target = [],
        Refresh = statusReplicationConfiguration env cn id', Timeout = t,
        ContinuousTargetOccurence = 2\<rparr>"
  shows "occ \<le> 1 \<Longrightarrow> refresh_loop n conf nf occ ls tr = Inr ((r, None), tr') \<Longrightarrow>
     r = None \<and> (\<exists>m. Suc m \<le> n \<and> tr' = tr @ replicate (Suc m) (refresh_request cn id')
        \<and> observed env cn id' tr m = Inr (None, '''', None)
        \<and> (if m = 0 then occ = 1 else observed env cn id' tr (m - 1) = Inr (None, '''', None)))"
proof (induction n arbitrary: nf occ ls tr)
  case 0
  then show ?case by simp
next
  case (Suc n)
  let ?c = "refresh_request cn id'"
  obtain res s err where st: "statusReplicationConfiguration env cn id' tr = Inr ((res, s, err), tr @ [?c])"
    using status_request by blast
  have ob: "observed env cn id' tr 0 = Inr (res, s, err)" using st by (rule observed_0)
  note step = deleted_step [OF conf st, of n nf occ ls]
  show ?case
  proof (cases "err \<noteq> None")
    case True
    with Suc.prems step show ?thesis by simp
  next
    case noerr: False
    show ?thesis
    proof (cases res)
      case None
      have s: "s = ''''" using st noerr None status_nil_state by simp
      have ab: "observed env cn id' tr 0 = Inr (None, '''', None)"
        using ob noerr None s by simp
      show ?thesis
      proof (cases "occ = 1")
        case True
        with Suc.prems step noerr None have "r = None" and "tr' = tr @ replicate (Suc 0) ?c"
          by simp_all
        with ab True show ?thesis by (intro conjI exI [of _ 0]) simp_all
      next
        case False
        with Suc.prems(1) have occ0: "occ = 0" by simp
        from Suc.prems(2) step noerr None False
        have rec: "refresh_loop n conf nf (occ + 1) s (tr @ [?c]) = Inr ((r, None), tr')" by simp
        have "occ + 1 \<le> 1" using occ0 by simp
        from Suc.IH [OF this rec] obtain m where rn: "r = None" and m: "Suc m \<le> n"
          and t: "tr' = (tr @ [?c]) @ replicate (Suc m) ?c"
          and o: "observed env cn id' (tr @ [?c]) m = Inr (None, '''', None)"
          and p: "if m = 0 then occ + 1 = 1
                  else observed env cn id' (tr @ [?c]) (m - 1) = Inr (None, '''', None)"
          by blast
        have prev: "observed env cn id' tr (Suc m - 1) = Inr (None, '''', None)"
        proof (cases m)
          case 0
          with ab show ?thesis by simp
        next
          case (Suc i)
          with p have "observed env cn id' (tr @ [?c]) i = Inr (None, '''', None)" by simp
          then show ?thesis unfolding Suc by (simp add: observed_Suc)
        qed
        have "Suc (Suc m) \<le> Suc n" using m by simp
        moreover have "tr' = tr @ replicate (Suc (Suc m)) ?c" using t by simp
        moreover have "observed env cn id' tr (Suc m) = Inr (None, '''', None)"
          using o by (simp only: observed_Suc)
        ultimately show ?thesis using rn prev
          by (intro conjI exI [of _ "Suc m"]) simp_all
      qed
    next
      case (Some out)
      show ?thesis
      proof (cases "s = ''DELETING''")
        case True
        from Suc.prems(2) step noerr Some True
        have rec: "refresh_loop n conf 0 0 s (tr @ [?c]) = Inr ((r, None), tr')" by simp
        have "(0::nat) \<le> 1" by simp
        from Suc.IH [OF this rec] obtain m where rn: "r = None" and m: "Suc m \<le> n"
          and t: "tr' = (tr @ [?c]) @ replicate (Suc m) ?c"
          and o: "observed env cn id' (tr @ [?c]) m = Inr (None, '''', None)"
          and p: "if m = 0 then (0::nat) = 1
                  else observed env cn id' (tr @ [?c]) (m - 1) = Inr (None, '''', None)"
          by blast
        from p obtain i where mi: "m = Suc i"
          and pi: "observed env cn id' (tr @ [?c]) i = Inr (None, '''', None)"
          by (cases m) auto
        have prev: "observed env cn id' tr (Suc m - 1) = Inr (None, '''', None)"
          using pi unfolding mi by (simp add: observed_Suc)
        have "Suc (Suc m) \<le> Suc n" using m by simp
        moreover have "tr' = tr @ replicate (Suc (Suc m)) ?c" using t by simp
        moreover have "observed env cn id' tr (Suc m) = Inr (None, '''', None)"
          using o by (simp only: observed_Suc)
        ultimately show ?thesis using rn prev
          by (intro conjI exI [of _ "Suc m"]) simp_all
      next
        case False
        with Suc.prems step noerr Some show ?thesis by simp
      qed
    qed
  qed
qed

text \<open>
  C10. \<open>waitReplicationConfigurationDeleted\<close> returns a nil error only after two refreshes
  in a row, the last two, have found the replication configuration absent (the lookup
  reported not-found, so that the refresh gave a nil result with the empty state), as
  \<open>ContinuousTargetOccurence = 2\<close> asks; it does so when the refreshes before them observed
  \<open>DELETING\<close>. One absent observation is not enough: a wait whose timeout leaves room for
  one refresh, which finds nothing, ends with a timeout error.
\<close>

theorem waitReplicationConfigurationDeleted_two_absent:
  assumes n: "refreshes_before_timeout env tr timeout = n"
  shows
    "(\<forall>r tr'. waitReplicationConfigurationDeleted env cn id' timeout tr = Inr ((r, None), tr')
        \<longrightarrow> r = None
            \<and> (\<exists>k. k + 2 \<le> n \<and> tr' = tr @ replicate (k + 2) (refresh_request cn id')
                 \<and> observed env cn id' tr k = Inr (None, '''', None)
                 \<and> observed env cn id' tr (Suc k) = Inr (None, '''', None)))
     \<and> (\<forall>k. k + 2 \<le> n
          \<and> (\<forall>j<k. \<exists>o'. observed env cn id' tr j = Inr (Some o', ''DELETING'', None))
          \<and> observed env cn id' tr k = Inr (None, '''', None)
          \<and> observed env cn id' tr (Suc k) = Inr (None, '''', None)
        \<longrightarrow> waitReplicationConfigurationDeleted env cn id' timeout tr
              = Inr ((None, None), tr @ replicate (k + 2) (refresh_request cn id')))
     \<and> (n = 1 \<and> observed env cn id' tr 0 = Inr (None, '''', None)
        \<longrightarrow> waitReplicationConfigurationDeleted env cn id' timeout tr
              = Inr ((None, Some (TimeoutError None '''' [])), tr @ [refresh_request cn id']))
     \<and> (\<forall>j. observed env cn id' tr j = Inr (None, '''', None) \<longleftrightarrow>
            (\<exists>r e t. FindReplicationConfigurationByID env cn id'
                        (tr @ replicate j (refresh_request cn id')) = Inr ((r, e), t)
                     \<and> NotFound e))
     \<and> (\<forall>p. waitReplicationConfigurationDeleted env cn id' timeout tr \<noteq> Inl p)"
proof -
  let ?conf = "\<lparr>Pending = [ReplicationStatusDeleting], Target = [],
        Refresh = statusReplicationConfiguration env cn id', Timeout = timeout,
        ContinuousTargetOccurence = 2\<rparr>"
  let ?c = "refresh_request cn id'"
  have w: "waitReplicationConfigurationDeleted env cn id' timeout tr
      = refresh_loop n ?conf 0 0 '''' tr"
    by (simp only: waitReplicationConfigurationDeleted_loop n)
  have a: "\<forall>r tr'. waitReplicationConfigurationDeleted env cn id' timeout tr = Inr ((r, None), tr')
        \<longrightarrow> r = None
            \<and> (\<exists>k. k + 2 \<le> n \<and> tr' = tr @ replicate (k + 2) ?c
                 \<and> observed env cn id' tr k = Inr (None, '''', None)
                 \<and> observed env cn id' tr (Suc k) = Inr (None, '''', None))"
  proof (intro allI impI)
    fix r tr'
    assume "waitReplicationConfigurationDeleted env cn id' timeout tr = Inr ((r, None), tr')"
    then have l: "refresh_loop n ?conf 0 0 '''' tr = Inr ((r, None), tr')" by (simp only: w)
    have "(0::nat) \<le> 1" by simp
    from deleted_success_only [OF refl this l]
    obtain m where rn: "r = None" and m: "Suc m \<le> n" and t: "tr' = tr @ replicate (Suc m) ?c"
      and o: "observed env cn id' tr m = Inr (None, '''', None)"
      and p: "if m = 0 then (0::nat) = 1
              else observed env cn id' tr (m - 1) = Inr (None, '''', None)"
      by blast
    from p obtain k where mk: "m = Suc k" and pk: "observed env cn id' tr k = Inr (None, '''', None)"
      by (cases m) auto
    have "k + 2 \<le> n" using m mk by simp
    moreover have "tr' = tr @ replicate (k + 2) ?c" using t mk by simp
    moreover have "observed env cn id' tr (Suc k) = Inr (None, '''', None)" using o mk by simp
    ultimately show "r = None
            \<and> (\<exists>k. k + 2 \<le> n \<and> tr' = tr @ replicate (k + 2) ?c
                 \<and> observed env cn id' tr k = Inr (None, '''', None)
                 \<and> observed env cn id' tr (Suc k) = Inr (None, '''', None))"
      using rn pk by blast
  qed
  have b: "\<forall>k. k + 2 \<le> n
          \<and> (\<forall>j<k. \<exists>o'. observed env cn id' tr j = Inr (Some o', ''DELETING'', None))
          \<and> observed env cn id' tr k = Inr (None, '''', None)
          \<and> observed env cn id' tr (Suc k) = Inr (None, '''', None)
        \<longrightarrow> waitReplicationConfigurationDeleted env cn id' timeout tr
              = Inr ((None, None), tr @ replicate (k + 2) ?c)"
    unfolding w using deleted_reaches [OF refl] by blast
  have c: "n = 1 \<and> observed env cn id' tr 0 = Inr (None, '''', None)
        \<longrightarrow> waitReplicationConfigurationDeleted env cn id' timeout tr
              = Inr ((None, Some (TimeoutError None '''' [])), tr @ [?c])"
  proof
    assume h: "n = 1 \<and> observed env cn id' tr 0 = Inr (None, '''', None)"
    obtain r where st: "statusReplicationConfiguration env cn id' tr = Inr (r, tr @ [?c])"
      and ob: "observed env cn id' tr 0 = Inr r"
      by (rule status_observed)
    from ob h have r: "r = (None, '''', None)" by simp
    have "refresh_loop (Suc 0) ?conf 0 0 '''' tr = refresh_loop 0 ?conf 0 1 '''' (tr @ [?c])"
      using deleted_step [where rf = "statusReplicationConfiguration env cn id'" and t = timeout
          and n = 0 and nf = 0 and occ = 0 and ls = "''''", OF refl st [unfolded r]]
      by simp
    then show "waitReplicationConfigurationDeleted env cn id' timeout tr
              = Inr ((None, Some (TimeoutError None '''' [])), tr @ [?c])"
      unfolding w using h by simp
  qed
  have d: "\<forall>j. observed env cn id' tr j = Inr (None, '''', None) \<longleftrightarrow>
            (\<exists>r e t. FindReplicationConfigurationByID env cn id' (tr @ replicate j ?c)
                        = Inr ((r, e), t) \<and> NotFound e)"
    using observed_absent_iff by blast
  have e: "\<forall>p. waitReplicationConfigurationDeleted env cn id' timeout tr \<noteq> Inl p"
    unfolding w using refresh_loop_trace [of ?conf env cn id' n 0 0 "''''" tr] by auto
  from a b c d e show ?thesis by (intro conjI)
qed

end
